theory Spec2Isabelle
  imports Complex_Main "HOL-Library.Multiset"
begin

section \<open>Aravalli delineation: raster and vector pipeline\<close>

text \<open>
  Elevations, distances and pixel sizes are Python and numpy floats in the source. They are
  modelled as real numbers: a grid cell is \<open>real option\<close>, where \<open>None\<close> stands for
  a cell that \<open>np.isfinite\<close> rejects (NaN or an infinity). The source reads such a cell only
  through \<open>np.isfinite\<close> and \<open>np.where\<close>, so nothing else about it is needed.
  Exceptions are values of \<open>py_error\<close>.
\<close>

datatype py_error = ZeroDivisionError | OverflowError | ValueError | KeyError | TraceError

subsection \<open>Numeric conversions\<close>

text \<open>Python's \<open>int(x)\<close> on a float truncates toward zero.\<close>

definition py_int :: "real \<Rightarrow> int" where
  "py_int x = (if 0 \<le> x then \<lfloor>x\<rfloor> else \<lceil>x\<rceil>)"

text \<open>
  \<open>_compute_relief_method\<close>, lines 97-99:
  \<^verbatim>\<open>
  window_size = max(3, int(relief_radius / pixel_size))
  if window_size % 2 == 0:
      window_size += 1
  \<close>
  A pixel size of zero makes the division raise.
\<close>

definition window_size :: "real \<Rightarrow> real \<Rightarrow> py_error + int" where
  "window_size relief_radius pixel_size =
     (if pixel_size = 0 then Inl ZeroDivisionError
      else
        (let w = max 3 (py_int (relief_radius / pixel_size))
         in Inr (if w mod 2 = 0 then w + 1 else w)))"

subsection \<open>Grids\<close>

text \<open>
  A numpy 2D array is a list of rows. \<open>has_shape g m n\<close> says that \<open>g\<close> has \<open>m\<close> rows
  of \<open>n\<close> cells each; every numpy array is rectangular.
\<close>

type_synonym 'a grid = "'a list list"

definition nrows :: "'a grid \<Rightarrow> nat" where
  "nrows g = length g"

definition ncols :: "'a grid \<Rightarrow> nat" where
  "ncols g = (case g of [] \<Rightarrow> 0 | r # _ \<Rightarrow> length r)"

definition has_shape :: "'a grid \<Rightarrow> nat \<Rightarrow> nat \<Rightarrow> bool" where
  "has_shape g m n = (length g = m \<and> list_all (\<lambda>r. length r = n) g)"

definition is_rect :: "'a grid \<Rightarrow> bool" where
  "is_rect g = has_shape g (nrows g) (ncols g)"

definition tabulate2 :: "nat \<Rightarrow> nat \<Rightarrow> (nat \<Rightarrow> nat \<Rightarrow> 'a) \<Rightarrow> 'a grid" where
  "tabulate2 m n f = map (\<lambda>i. map (\<lambda>j. f i j) [0..<n]) [0..<m]"

definition grid_map :: "('a \<Rightarrow> 'b) \<Rightarrow> 'a grid \<Rightarrow> 'b grid" where
  "grid_map f g = map (map f) g"

definition grid_map2 :: "('a \<Rightarrow> 'b \<Rightarrow> 'c) \<Rightarrow> 'a grid \<Rightarrow> 'b grid \<Rightarrow> 'c grid" where
  "grid_map2 f g h = map (\<lambda>(r, s). map (\<lambda>(x, y). f x y) (zip r s)) (zip g h)"

text \<open>\<open>np.sum(mask)\<close>: the number of true cells.\<close>

definition count_true :: "bool grid \<Rightarrow> nat" where
  "count_true m = length (filter id (concat m))"

text \<open>\<open>np.isfinite(Z)\<close>, \<open>np.any(Z_finite)\<close>, \<open>Z[Z_finite]\<close> and \<open>np.where(Z_finite, Z, fill)\<close>.\<close>

definition isfinite :: "real option grid \<Rightarrow> bool grid" where
  "isfinite Z = grid_map (\<lambda>c. c \<noteq> None) Z"

definition np_any :: "bool grid \<Rightarrow> bool" where
  "np_any m = list_ex (list_ex id) m"

definition finite_values :: "real option grid \<Rightarrow> real list" where
  "finite_values Z = concat (map (List.map_filter id) Z)"

definition fill_nonfinite :: "real option grid \<Rightarrow> real \<Rightarrow> real grid" where
  "fill_nonfinite Z fill = grid_map (\<lambda>c. case c of Some x \<Rightarrow> x | None \<Rightarrow> fill) Z"

subsection \<open>Sliding-window filters\<close>

text \<open>
  \<open>scipy.ndimage.minimum_filter(g, size=w)\<close> and \<open>maximum_filter\<close> with their default
  boundary mode \<open>reflect\<close> and origin 0: the window of cell \<open>i\<close> along one axis covers the
  indices \<open>i - w div 2 + t\<close> for \<open>t < w\<close>, and an index outside the array is reflected about
  the edge of the last cell (\<open>d c b a | a b c d | d c b a\<close>), with period twice the length.
\<close>

definition reflect_index :: "nat \<Rightarrow> int \<Rightarrow> nat" where
  "reflect_index n i =
     (let m = i mod (2 * int n)
      in nat (if m < int n then m else 2 * int n - 1 - m))"

definition window_offsets :: "nat \<Rightarrow> int list" where
  "window_offsets w = map (\<lambda>t. int t - int (w div 2)) [0..<w]"

definition window_values :: "nat \<Rightarrow> 'a grid \<Rightarrow> nat \<Rightarrow> nat \<Rightarrow> 'a list" where
  "window_values w g i j =
     concat (map (\<lambda>di. map (\<lambda>dj. g ! reflect_index (nrows g) (int i + di)
                                      ! reflect_index (ncols g) (int j + dj))
                           (window_offsets w))
                 (window_offsets w))"

definition minimum_filter :: "nat \<Rightarrow> real grid \<Rightarrow> real grid" where
  "minimum_filter w g = tabulate2 (nrows g) (ncols g) (\<lambda>i j. min_list (window_values w g i j))"

subsection \<open>Local relief of the fast method\<close>

text \<open>
  \<open>_compute_relief_method\<close>, lines 104-114:
  \<^verbatim>\<open>
  Z_finite = np.isfinite(Z)
  Z_filled = np.where(Z_finite, Z, np.nanmin(Z[Z_finite]) if np.any(Z_finite) else 0)
  local_min = minimum_filter(Z_filled, size=window_size)
  relief = Z_filled - local_min
  relief_mask = (relief >= relief_threshold) & Z_finite
  \<close>
\<close>

definition relief_filled :: "real option grid \<Rightarrow> real grid" where
  "relief_filled Z =
     fill_nonfinite Z (if np_any (isfinite Z) then min_list (finite_values Z) else 0)"

definition relief_grid :: "nat \<Rightarrow> real option grid \<Rightarrow> real grid" where
  "relief_grid window Z =
     (let Z_filled = relief_filled Z;
          local_min = minimum_filter window Z_filled
      in grid_map2 (\<lambda>x y. x - y) Z_filled local_min)"

definition relief_mask :: "nat \<Rightarrow> real \<Rightarrow> real option grid \<Rightarrow> bool grid" where
  "relief_mask window relief_threshold Z =
     grid_map2 (\<lambda>p q. p \<and> q)
       (grid_map (\<lambda>r. relief_threshold \<le> r) (relief_grid window Z)) (isfinite Z)"

fun max_list :: "real list \<Rightarrow> real" where
  "max_list (x # xs) = (case xs of [] \<Rightarrow> x | _ \<Rightarrow> max x (max_list xs))"
| "max_list [] = 0"

definition maximum_filter :: "nat \<Rightarrow> real grid \<Rightarrow> real grid" where
  "maximum_filter w g = tabulate2 (nrows g) (ncols g) (\<lambda>i j. max_list (window_values w g i j))"

subsection \<open>Data of the vector side\<close>

text \<open>
  The affine transform of rasterio (\<open>transform.a\<close>, \<open>.c\<close>, \<open>.e\<close>, \<open>.f\<close>), the DEM dictionary of
  the adapters, a matplotlib path, a closed contour and a hill footprint. The parameter
  dictionary is a map from names to numbers; \<open>params.get(k, d)\<close> is \<open>params_get\<close>.
\<close>

record affine =
  aff_a :: real
  aff_c :: real
  aff_e :: real
  aff_f :: real

record dem_data =
  dem_elevation :: "real option grid"
  dem_transform :: affine
  dem_crs :: string
  dem_pixel_size_m :: real

type_synonym params = "string \<rightharpoonup> real"

definition params_get :: "params \<Rightarrow> string \<Rightarrow> real \<Rightarrow> real" where
  "params_get params k d = (case params k of None \<Rightarrow> d | Some v \<Rightarrow> v)"

record mpl_path =
  path_has_codes :: bool
  path_vertices :: "(real \<times> real) list"

record 'g contour =
  c_elevation :: real
  c_geometry :: 'g

record 'g hill =
  h_peak_elev :: real
  h_base_elev :: real
  h_relief :: real
  h_geometry :: 'g

text \<open>
  A result layer: \<open>gpd.GeoDataFrame(geometry=[], crs=crs)\<close> is \<open>EmptyLayer\<close>, and the
  one-row frame \<open>GeoDataFrame({'layer': [name]}, geometry=[g], crs=crs)\<close> is \<open>Layer name g\<close>.
\<close>

datatype 'g layer = EmptyLayer | Layer string 'g

text \<open>
  The geometry library (shapely, geopandas, rasterio, matplotlib) is not part of the
  repository. Its operations are the fields of a record over an abstract geometry type:
  \<^item> \<open>shapes mask transform\<close>: the pairs of \<open>rasterio.features.shapes(mask.astype(np.uint8),
    mask=mask, transform=transform)\<close>, each geometry already passed through \<open>shapely_shape\<close>;
  \<^item> \<open>is_valid\<close>, \<open>is_empty\<close>, \<open>area\<close>: the shapely properties;
  \<^item> \<open>buffer g d\<close>: \<open>g.buffer(d)\<close>; \<open>unary_union gs\<close>: the union of a list or series;
  \<^item> \<open>contains g p\<close>: \<open>g.contains(Point(p))\<close>; \<open>distance g h\<close>: \<open>g.distance(h)\<close>;
  \<^item> \<open>polygon vs\<close>: \<open>Polygon(vs)\<close>, \<open>None\<close> when the constructor raises;
  \<^item> \<open>contour_paths Z transform level\<close>: every path of every collection of
    \<open>ax.contour(X, Y, Z, levels=[level])\<close> on the coordinate grids of the transform, or the
    exception raised on the way (from the imports of matplotlib on);
  \<^item> \<open>explode gs\<close>: the geometries of \<open>gdf.explode(index_parts=False).reset_index(drop=True)\<close>,
    \<open>None\<close> when it raises;
  \<^item> \<open>tree_query gs g\<close>: the indices returned by \<open>STRtree(gs).query(g)\<close>.
\<close>

record 'g geom_lib =
  shapes :: "bool grid \<Rightarrow> affine \<Rightarrow> ('g \<times> nat) list"
  is_valid :: "'g \<Rightarrow> bool"
  is_empty :: "'g \<Rightarrow> bool"
  area :: "'g \<Rightarrow> real"
  buffer :: "'g \<Rightarrow> real \<Rightarrow> 'g"
  unary_union :: "'g list \<Rightarrow> 'g"
  contains :: "'g \<Rightarrow> real \<times> real \<Rightarrow> bool"
  distance :: "'g \<Rightarrow> 'g \<Rightarrow> real"
  polygon :: "(real \<times> real) list \<Rightarrow> 'g option"
  contour_paths :: "real grid \<Rightarrow> affine \<Rightarrow> real \<Rightarrow> py_error + mpl_path list"
  explode :: "'g list \<Rightarrow> 'g list option"
  tree_query :: "'g list \<Rightarrow> 'g \<Rightarrow> nat list"

subsection \<open>Polygonizer\<close>

text \<open>
  \<open>_polygonize_mask\<close> of \<open>new_method.py\<close> (lines 333-348) and of \<open>old_method.py\<close>
  (lines 286-314, the same loop under a progress bar):
  \<^verbatim>\<open>
  geoms = []
  for geom_dict, val in shapes(mask.astype(np.uint8), mask=mask, transform=transform):
      if val == 1:
          geom = shapely_shape(geom_dict)
          if geom.is_valid and not geom.is_empty:
              geoms.append(geom)
  \<close>
\<close>

fun collect_geoms :: "'g geom_lib \<Rightarrow> ('g \<times> nat) list \<Rightarrow> 'g list" where
  "collect_geoms lib [] = []"
| "collect_geoms lib ((geom, val) # rest) =
     (if val = 1 then
        (if is_valid lib geom \<and> \<not> is_empty lib geom
         then geom # collect_geoms lib rest
         else collect_geoms lib rest)
      else collect_geoms lib rest)"

definition polygonize_mask :: "'g geom_lib \<Rightarrow> bool grid \<Rightarrow> affine \<Rightarrow> 'g list" where
  "polygonize_mask lib msk tr = collect_geoms lib (shapes lib msk tr)"

subsection \<open>Fast relief method\<close>

text \<open>
  \<open>_compute_relief_method\<close>. Lines 137-142 are the range proximity clustering:
  \<^verbatim>\<open>
  half_proximity = range_proximity / 2
  new_clustered = gpd.GeoSeries([new_union], crs=crs).buffer(half_proximity)
  new_clustered = new_clustered.unary_union
  new_clustered = gpd.GeoSeries([new_clustered], crs=crs).buffer(-half_proximity).iloc[0]
  \<close>
\<close>

definition compute_relief_method ::
  "'g geom_lib \<Rightarrow> dem_data \<Rightarrow> params \<Rightarrow> py_error + 'g layer" where
  "compute_relief_method lib dem params =
     (let Z = dem_elevation dem;
          transform = dem_transform dem;
          pixel_size = dem_pixel_size_m dem;
          relief_threshold = params_get params ''relief_threshold_m'' 100;
          range_proximity = params_get params ''range_proximity_m'' 500;
          relief_radius = params_get params ''relief_radius_m'' 2000
      in case window_size relief_radius pixel_size of
           Inl err \<Rightarrow> Inl err
         | Inr window \<Rightarrow>
             (let msk = relief_mask (nat window) relief_threshold Z;
                  masked_pixels = count_true msk
              in if masked_pixels = 0 then Inr EmptyLayer
                 else
                   (let polygons = polygonize_mask lib msk transform
                    in if polygons = [] then Inr EmptyLayer
                       else
                         (let new_union = unary_union lib (map (\<lambda>g. buffer lib g 0) polygons);
                              half_proximity = range_proximity / 2;
                              outward = buffer lib new_union half_proximity;
                              dissolved = unary_union lib [outward];
                              new_clustered = buffer lib dissolved (- half_proximity)
                          in Inr (Layer ''NEW_2025_relief'' new_clustered)))))"

text \<open>
  The clustering block of lines 137-142, which lines 307-312 of the contour method repeat
  on \<open>all_hills\<close>: buffer outward by half the proximity, dissolve the one buffered geometry,
  buffer inward by the same amount.
\<close>

definition cluster_by_proximity :: "'g geom_lib \<Rightarrow> 'g \<Rightarrow> real \<Rightarrow> 'g" where
  "cluster_by_proximity lib geometry range_proximity =
     buffer lib (unary_union lib [buffer lib geometry (range_proximity / 2)])
       (- (range_proximity / 2))"

subsection \<open>Contour method\<close>

text \<open>
  Contour levels, lines 196-198:
  \<^verbatim>\<open>
  min_elev = np.floor(np.nanmin(Z_filled) / contour_interval) * contour_interval
  max_elev = np.ceil(np.nanmax(Z_filled) / contour_interval) * contour_interval
  contour_levels = np.arange(min_elev, max_elev + contour_interval, contour_interval)
  \<close>
  \<open>np.arange(start, stop, step)\<close> has \<open>ceil((stop - start) / step)\<close> elements
  \<open>start + k * step\<close> (none when that is not positive), and raises for a step of zero.
  Here \<open>(stop - start) / step\<close> is the integer \<open>ceil(max / step) - floor(min / step) + 1\<close>.
\<close>

definition contour_levels :: "real grid \<Rightarrow> real \<Rightarrow> py_error + real list" where
  "contour_levels Z_filled contour_interval =
     (if contour_interval = 0 then Inl ValueError
      else
        (let lo = \<lfloor>min_list (concat Z_filled) / contour_interval\<rfloor>;
             hi = \<lceil>max_list (concat Z_filled) / contour_interval\<rceil>;
             min_elev = of_int lo * contour_interval;
             count = nat (hi - lo + 1)
         in Inr (map (\<lambda>k. min_elev + of_nat k * contour_interval) [0..<count])))"

text \<open>
  \<open>np.allclose(p, q, atol=t)\<close> on two points, with the default relative tolerance \<open>1e-5\<close>.
\<close>

definition allclose_pt :: "real \<times> real \<Rightarrow> real \<times> real \<Rightarrow> real \<Rightarrow> bool" where
  "allclose_pt p q atol =
     (\<bar>fst p - fst q\<bar> \<le> atol + \<bar>fst q\<bar> / 100000 \<and>
      \<bar>snd p - snd q\<bar> \<le> atol + \<bar>snd q\<bar> / 100000)"

text \<open>
  The body of the loop over paths, lines 224-235: a path with codes and more than three
  vertices whose ends coincide within one pixel becomes a closed contour when its polygon is
  valid and has positive area; an exception of the polygon constructor is swallowed.
\<close>

definition path_contours :: "'g geom_lib \<Rightarrow> real \<Rightarrow> real \<Rightarrow> mpl_path \<Rightarrow> 'g contour list" where
  "path_contours lib pixel_size level path =
     (let vs = path_vertices path
      in if path_has_codes path \<and> 3 < length vs then
           (if allclose_pt (hd vs) (last vs) pixel_size then
              (case polygon lib vs of
                 None \<Rightarrow> []
               | Some poly \<Rightarrow>
                   (if is_valid lib poly \<and> 0 < area lib poly
                    then [\<lparr>c_elevation = level, c_geometry = poly\<rparr>]
                    else []))
            else [])
         else [])"

text \<open>
  The \<open>try\<close> block, lines 205-237: the loop over the levels. The first exception leaves
  the block; otherwise the closed contours are collected in the order found.
\<close>

fun trace_levels ::
  "'g geom_lib \<Rightarrow> real grid \<Rightarrow> affine \<Rightarrow> real \<Rightarrow> real list \<Rightarrow> py_error + 'g contour list" where
  "trace_levels lib Z_filled tr pixel_size [] = Inr []"
| "trace_levels lib Z_filled tr pixel_size (level # levels) =
     (case contour_paths lib Z_filled tr level of
        Inl err \<Rightarrow> Inl err
      | Inr paths \<Rightarrow>
          (case trace_levels lib Z_filled tr pixel_size levels of
             Inl err \<Rightarrow> Inl err
           | Inr found \<Rightarrow>
               Inr (concat (map (path_contours lib pixel_size level) paths) @ found)))"

text \<open>
  Peak detection, lines 254-262; \<open>np.argwhere\<close> lists the true cells in row-major order.
\<close>

definition peak_window :: "real \<Rightarrow> py_error + int" where
  "peak_window pixel_size =
     (if pixel_size = 0 then Inl ZeroDivisionError
      else
        (let w = max 5 (py_int (500 / pixel_size))
         in Inr (if w mod 2 = 0 then w + 1 else w)))"

definition argwhere :: "bool grid \<Rightarrow> (nat \<times> nat) list" where
  "argwhere msk =
     concat (map (\<lambda>i. map (\<lambda>j. (i, j)) (filter (\<lambda>j. msk ! i ! j) [0..<ncols msk]))
                 [0..<nrows msk])"

definition peaks_mask :: "nat \<Rightarrow> real option grid \<Rightarrow> real grid \<Rightarrow> bool grid" where
  "peaks_mask window Z Z_filled =
     grid_map2 (\<lambda>p q. p \<and> q)
       (grid_map2 (\<lambda>x y. x = y) Z_filled (maximum_filter window Z_filled)) (isfinite Z)"

text \<open>
  Enclosure search, lines 266-291. The contours are sorted by elevation with Python's stable
  sort; for each peak the inner loop stops at the first contour that contains the peak.
  \<^verbatim>\<open>
  closed_contours.sort(key=lambda x: x['elevation'])
  for peak_idx, (py, px) in enumerate(peak_coords):
      peak_elev = Z_filled[py, px]
      peak_x = transform.c + px * transform.a
      peak_y = transform.f + py * transform.e
      peak_point = Point(peak_x, peak_y)
      for contour in closed_contours:
          if contour['geometry'].contains(peak_point):
              local_relief = peak_elev - contour['elevation']
              if local_relief >= relief_threshold:
                  hill_footprints.append({...})
              break
  \<close>
\<close>

fun scan_contours ::
  "'g geom_lib \<Rightarrow> real \<Rightarrow> real \<Rightarrow> real \<times> real \<Rightarrow> 'g contour list \<Rightarrow> 'g hill list" where
  "scan_contours lib relief_threshold peak_elev peak_point [] = []"
| "scan_contours lib relief_threshold peak_elev peak_point (contour # rest) =
     (if contains lib (c_geometry contour) peak_point then
        (let local_relief = peak_elev - c_elevation contour
         in if relief_threshold \<le> local_relief
            then [\<lparr>h_peak_elev = peak_elev, h_base_elev = c_elevation contour,
                   h_relief = local_relief, h_geometry = c_geometry contour\<rparr>]
            else [])
      else scan_contours lib relief_threshold peak_elev peak_point rest)"

definition peak_point_of :: "affine \<Rightarrow> nat \<times> nat \<Rightarrow> real \<times> real" where
  "peak_point_of tr p =
     (aff_c tr + of_nat (snd p) * aff_a tr, aff_f tr + of_nat (fst p) * aff_e tr)"

definition hill_footprints ::
  "'g geom_lib \<Rightarrow> real \<Rightarrow> affine \<Rightarrow> real grid \<Rightarrow> 'g contour list \<Rightarrow> (nat \<times> nat) list
     \<Rightarrow> 'g hill list" where
  "hill_footprints lib relief_threshold tr Z_filled closed_contours peak_coords =
     (let sorted_contours = sort_key c_elevation closed_contours
      in concat (map (\<lambda>p. scan_contours lib relief_threshold
                             (Z_filled ! fst p ! snd p) (peak_point_of tr p) sorted_contours)
                     peak_coords))"

text \<open>Line 193: \<open>Z_filled = np.where(Z_finite, Z, np.nanmin(Z[Z_finite]))\<close>.\<close>

definition contour_filled :: "real option grid \<Rightarrow> real grid" where
  "contour_filled Z = fill_nonfinite Z (min_list (finite_values Z))"

text \<open>
  \<open>_compute_contour_method\<close>. A DEM without a finite cell returns the empty layer at once
  (lines 189-191); an exception in the \<open>try\<close> block, or no closed contour, returns the result
  of the relief method (lines 239-248).
\<close>

definition compute_contour_method ::
  "'g geom_lib \<Rightarrow> dem_data \<Rightarrow> params \<Rightarrow> py_error + 'g layer" where
  "compute_contour_method lib dem params =
     (let Z = dem_elevation dem;
          transform = dem_transform dem;
          pixel_size = dem_pixel_size_m dem;
          relief_threshold = params_get params ''relief_threshold_m'' 100;
          range_proximity = params_get params ''range_proximity_m'' 500;
          contour_interval = params_get params ''contour_interval_m'' 10;
          Z_finite = isfinite Z
      in if \<not> np_any Z_finite then Inr EmptyLayer
         else
           (let Z_filled = contour_filled Z
            in case contour_levels Z_filled contour_interval of
                 Inl err \<Rightarrow> Inl err
               | Inr levels \<Rightarrow>
                   (case trace_levels lib Z_filled transform pixel_size levels of
                      Inl err \<Rightarrow> compute_relief_method lib dem params
                    | Inr closed_contours \<Rightarrow>
                        if closed_contours = [] then compute_relief_method lib dem params
                        else
                          (case peak_window pixel_size of
                             Inl err \<Rightarrow> Inl err
                           | Inr window \<Rightarrow>
                               (let peak_coords = argwhere (peaks_mask (nat window) Z Z_filled);
                                    hills = hill_footprints lib relief_threshold transform
                                              Z_filled closed_contours peak_coords
                                in if hills = [] then Inr EmptyLayer
                                   else
                                     (let all_hills = unary_union lib (map h_geometry hills);
                                          half_proximity = range_proximity / 2;
                                          outward = buffer lib all_hills half_proximity;
                                          dissolved = unary_union lib [outward];
                                          new_clustered = buffer lib dissolved (- half_proximity)
                                      in Inr (Layer ''NEW_2025_contour'' new_clustered)))))))"

subsection \<open>Binary morphology\<close>

text \<open>
  \<open>scipy.ndimage\<close>: \<open>generate_binary_structure(2, 1)\<close> is the 4-connected cross.
  \<open>binary_dilation(input, structure, iterations=n)\<close> with \<open>n \<ge> 1\<close> repeats the dilation
  \<open>n\<close> times, and \<open>binary_closing(input, structure, iterations=n)\<close> is that dilation followed
  by the erosion repeated \<open>n\<close> times. Both take cells outside the array as false
  (\<open>border_value=0\<close>). The source calls them only with \<open>n > 0\<close>.
\<close>

definition generate_binary_structure_2_1 :: "bool grid" where
  "generate_binary_structure_2_1 =
     [[False, True, False], [True, True, True], [False, True, False]]"

definition structure_offsets :: "bool grid \<Rightarrow> (int \<times> int) list" where
  "structure_offsets S =
     map (\<lambda>p. (int (fst p) - int (nrows S div 2), int (snd p) - int (ncols S div 2)))
         (concat (map (\<lambda>i. map (\<lambda>j. (i, j)) (filter (\<lambda>j. S ! i ! j) [0..<ncols S]))
                      [0..<nrows S]))"

definition cell_or_false :: "bool grid \<Rightarrow> int \<Rightarrow> int \<Rightarrow> bool" where
  "cell_or_false g i j =
     (if 0 \<le> i \<and> i < int (nrows g) \<and> 0 \<le> j \<and> j < int (ncols g)
      then g ! nat i ! nat j else False)"

definition dilate_once :: "bool grid \<Rightarrow> bool grid \<Rightarrow> bool grid" where
  "dilate_once S g =
     tabulate2 (nrows g) (ncols g)
       (\<lambda>i j. list_ex (\<lambda>d. cell_or_false g (int i - fst d) (int j - snd d))
                       (structure_offsets S))"

definition erode_once :: "bool grid \<Rightarrow> bool grid \<Rightarrow> bool grid" where
  "erode_once S g =
     tabulate2 (nrows g) (ncols g)
       (\<lambda>i j. list_all (\<lambda>d. cell_or_false g (int i + fst d) (int j + snd d))
                        (structure_offsets S))"

definition binary_dilation :: "bool grid \<Rightarrow> bool grid \<Rightarrow> nat \<Rightarrow> bool grid" where
  "binary_dilation g S iterations = (dilate_once S ^^ iterations) g"

definition binary_erosion :: "bool grid \<Rightarrow> bool grid \<Rightarrow> nat \<Rightarrow> bool grid" where
  "binary_erosion g S iterations = (erode_once S ^^ iterations) g"

definition binary_closing :: "bool grid \<Rightarrow> bool grid \<Rightarrow> nat \<Rightarrow> bool grid" where
  "binary_closing g S iterations =
     binary_erosion (binary_dilation g S iterations) S iterations"

subsection \<open>OLD method\<close>

text \<open>
  \<open>_compute_slope_degrees\<close>. The gradient, arctangent and conversion to degrees of
  lines 251-257 are floating-point work and stay a parameter \<open>slope_of\<close>, applied to the
  filled grid. What is modelled: \<open>np.gradient\<close> raises on fewer than two cells along an
  axis; the fill value \<open>np.nanmean(Z[np.isfinite(Z)])\<close> is NaN when no cell is finite, which
  makes every slope NaN; and line 260 restores NaN wherever the elevation is not finite.
\<close>

definition compute_slope_degrees ::
  "(real grid \<Rightarrow> real \<Rightarrow> real grid) \<Rightarrow> real option grid \<Rightarrow> real \<Rightarrow> py_error + real option grid" where
  "compute_slope_degrees slope_of Z pixel_size =
     (if nrows Z < 2 \<or> ncols Z < 2 then Inl ValueError
      else if \<not> np_any (isfinite Z) then Inr (grid_map (\<lambda>c. None) Z)
      else
        (let vals = finite_values Z;
             Z_filled = fill_nonfinite Z (sum_list vals / of_nat (length vals));
             slope_deg = slope_of Z_filled pixel_size
         in Inr (grid_map2 (\<lambda>c s. if c \<noteq> None then Some s else None) Z slope_deg)))"

text \<open>\<open>params[k]\<close> raises \<open>KeyError\<close> on a missing key.\<close>

definition params_item :: "params \<Rightarrow> string \<Rightarrow> py_error + real" where
  "params_item params k = (case params k of None \<Rightarrow> Inl KeyError | Some v \<Rightarrow> Inr v)"

text \<open>Line 65: \<open>slope_mask = (slope_deg > slope_threshold) & np.isfinite(Z)\<close>.\<close>

definition threshold_slope :: "real option grid \<Rightarrow> real \<Rightarrow> real option grid \<Rightarrow> bool grid" where
  "threshold_slope slope_deg slope_threshold Z =
     grid_map2 (\<lambda>p q. p \<and> q)
       (grid_map (\<lambda>s. case s of None \<Rightarrow> False | Some v \<Rightarrow> slope_threshold < v) slope_deg)
       (isfinite Z)"

text \<open>
  Lines 74-83. The urban mask comes from an external service and may be absent:
  \<^verbatim>\<open>
  if urban_mask is not None:
      urban_pixel_count = np.sum(urban_mask)
      if urban_pixel_count > 0:
          slope_mask = slope_mask & (~urban_mask)
  \<close>
\<close>

definition exclude_urban :: "bool grid \<Rightarrow> bool grid option \<Rightarrow> bool grid" where
  "exclude_urban slope_mask urban_mask =
     (case urban_mask of
        None \<Rightarrow> slope_mask
      | Some urban \<Rightarrow>
          if 0 < count_true urban then grid_map2 (\<lambda>p q. p \<and> \<not> q) slope_mask urban
          else slope_mask)"

text \<open>
  Lines 93-94: \<open>buffer_pixels = int(np.ceil(foothill_buffer / pixel_size))\<close> and
  \<open>gap_pixels = int(np.ceil(gap_bridge / pixel_size / 2))\<close>.
  The operands are Python floats and \<open>/\<close> is the division of IEEE-754 doubles, which
  rounds the quotient: it is the parameter \<open>fdiv\<close>, which returns \<open>None\<close> when the
  quotient overflows to an infinity. A divisor of zero raises \<open>ZeroDivisionError\<close>,
  an infinity divided by 2 is an infinity, \<open>np.ceil\<close> keeps an infinity and \<open>int\<close> of an
  infinity raises \<open>OverflowError\<close>.
\<close>

type_synonym float_div = "real \<Rightarrow> real \<Rightarrow> real option"

definition int_ceil :: "real option \<Rightarrow> py_error + int" where
  "int_ceil q = (case q of None \<Rightarrow> Inl OverflowError | Some x \<Rightarrow> Inr \<lceil>x\<rceil>)"

definition buffer_pixels :: "float_div \<Rightarrow> real \<Rightarrow> real \<Rightarrow> py_error + int" where
  "buffer_pixels fdiv foothill_buffer pixel_size =
     (if pixel_size = 0 then Inl ZeroDivisionError
      else int_ceil (fdiv foothill_buffer pixel_size))"

definition gap_pixels :: "float_div \<Rightarrow> real \<Rightarrow> real \<Rightarrow> py_error + int" where
  "gap_pixels fdiv gap_bridge pixel_size =
     (if pixel_size = 0 then Inl ZeroDivisionError
      else int_ceil (case fdiv gap_bridge pixel_size of
                       None \<Rightarrow> None
                     | Some q \<Rightarrow> fdiv q 2))"

text \<open>Lines 99-103 and 106-109: the two guarded morphological stages.\<close>

definition bridge_gaps :: "int \<Rightarrow> bool grid \<Rightarrow> bool grid" where
  "bridge_gaps gap_px slope_mask =
     (if 0 < gap_px
      then binary_closing slope_mask generate_binary_structure_2_1 (nat gap_px)
      else slope_mask)"

definition foothill_dilate :: "int \<Rightarrow> bool grid \<Rightarrow> bool grid" where
  "foothill_dilate buffer_px slope_mask =
     (if 0 < buffer_px
      then binary_dilation slope_mask generate_binary_structure_2_1 (nat buffer_px)
      else slope_mask)"

text \<open>
  \<open>compute_old_delineation\<close> up to line 111: the final raster mask, \<open>None\<close> when the
  function returns the empty layer at line 87.
\<close>

definition old_final_mask ::
  "float_div \<Rightarrow> (real grid \<Rightarrow> real \<Rightarrow> real grid) \<Rightarrow> bool grid option \<Rightarrow> dem_data \<Rightarrow> params
     \<Rightarrow> py_error + bool grid option" where
  "old_final_mask fdiv slope_of urban_mask dem params =
     (let Z = dem_elevation dem;
          pixel_size = dem_pixel_size_m dem
      in case params_item params ''slope_threshold_deg'' of
           Inl err \<Rightarrow> Inl err
         | Inr slope_threshold \<Rightarrow>
         (case params_item params ''foothill_buffer_m'' of
           Inl err \<Rightarrow> Inl err
         | Inr foothill_buffer \<Rightarrow>
         (case params_item params ''gap_bridge_m'' of
           Inl err \<Rightarrow> Inl err
         | Inr gap_bridge \<Rightarrow>
         (case compute_slope_degrees slope_of Z pixel_size of
           Inl err \<Rightarrow> Inl err
         | Inr slope_deg \<Rightarrow>
             (let slope_mask = threshold_slope slope_deg slope_threshold Z;
                  slope_mask = exclude_urban slope_mask urban_mask;
                  masked_pixels = count_true slope_mask
              in if masked_pixels = 0 then Inr None
                 else
                   (case buffer_pixels fdiv foothill_buffer pixel_size of
                      Inl err \<Rightarrow> Inl err
                    | Inr buffer_px \<Rightarrow>
                   (case gap_pixels fdiv gap_bridge pixel_size of
                      Inl err \<Rightarrow> Inl err
                    | Inr gap_px \<Rightarrow>
                        (let slope_mask = bridge_gaps gap_px slope_mask;
                             slope_mask = foothill_dilate buffer_px slope_mask
                         in Inr (Some slope_mask)))))))))"

text \<open>
  Lines 114-131: polygonize the final mask, pass each polygon through a zero-width buffer
  and dissolve.
\<close>

definition compute_old_delineation ::
  "'g geom_lib \<Rightarrow> float_div \<Rightarrow> (real grid \<Rightarrow> real \<Rightarrow> real grid) \<Rightarrow> bool grid option
     \<Rightarrow> dem_data \<Rightarrow> params \<Rightarrow> py_error + 'g layer" where
  "compute_old_delineation lib fdiv slope_of urban_mask dem params =
     (case old_final_mask fdiv slope_of urban_mask dem params of
        Inl err \<Rightarrow> Inl err
      | Inr None \<Rightarrow> Inr EmptyLayer
      | Inr (Some slope_mask) \<Rightarrow>
          (let polygons = polygonize_mask lib slope_mask (dem_transform dem)
           in if polygons = [] then Inr EmptyLayer
              else
                (let old_union = unary_union lib (map (\<lambda>g. buffer lib g 0) polygons)
                 in Inr (Layer ''OLD_FSI_like'' old_union))))"

subsection \<open>Nearest-neighbour distances\<close>

text \<open>
  \<open>compute_hill_distances\<close> of \<open>stats.py\<close>. The running minimum starts at
  \<open>float('inf')\<close>, here \<open>None\<close>, with \<open>nearest_idx = -1\<close>. The rounding of a float to
  one decimal, \<open>round(min_dist, 1)\<close>, is the parameter \<open>round1\<close>.
  \<^verbatim>\<open>
  for i, geom in enumerate(geoms):
      candidates = tree.query(geom.buffer(max_distance_m))
      min_dist = float('inf')
      nearest_idx = -1
      for j in candidates:
          if i == j:
              continue
          dist = geom.distance(geoms[j])
          if dist < min_dist:
              min_dist = dist
              nearest_idx = j
      if np.isfinite(min_dist) and min_dist < max_distance_m:
          distances.append({'hill_id': i, 'nearest_id': nearest_idx,
                            'distance_m': round(min_dist, 1)})
  \<close>
\<close>

record distance_row =
  hill_id :: nat
  nearest_id :: int
  distance_m :: real

fun scan_candidates ::
  "'g geom_lib \<Rightarrow> 'g list \<Rightarrow> nat \<Rightarrow> nat list \<Rightarrow> real option \<times> int \<Rightarrow> real option \<times> int" where
  "scan_candidates lib geoms i [] acc = acc"
| "scan_candidates lib geoms i (j # js) acc =
     (if i = j then scan_candidates lib geoms i js acc
      else
        (let dist = distance lib (geoms ! i) (geoms ! j)
         in if (case fst acc of None \<Rightarrow> True | Some min_dist \<Rightarrow> dist < min_dist)
            then scan_candidates lib geoms i js (Some dist, int j)
            else scan_candidates lib geoms i js acc))"

definition nearest_row ::
  "'g geom_lib \<Rightarrow> (real \<Rightarrow> real) \<Rightarrow> 'g list \<Rightarrow> real \<Rightarrow> nat \<Rightarrow> distance_row list" where
  "nearest_row lib round1 geoms max_distance_m i =
     (let candidates = tree_query lib geoms (buffer lib (geoms ! i) max_distance_m);
          found = scan_candidates lib geoms i candidates (None, - 1)
      in case fst found of
           None \<Rightarrow> []
         | Some min_dist \<Rightarrow>
             if min_dist < max_distance_m
             then [\<lparr>hill_id = i, nearest_id = snd found, distance_m = round1 min_dist\<rparr>]
             else [])"

text \<open>
  Lines 138-141: the explosion into single parts; when it raises, the frame is used as it
  is.
\<close>

definition exploded :: "'g geom_lib \<Rightarrow> 'g list \<Rightarrow> 'g list" where
  "exploded lib hills_gdf = (case explode lib hills_gdf of None \<Rightarrow> hills_gdf | Some parts \<Rightarrow> parts)"

definition compute_hill_distances ::
  "'g geom_lib \<Rightarrow> (real \<Rightarrow> real) \<Rightarrow> 'g list \<Rightarrow> real \<Rightarrow> distance_row list option" where
  "compute_hill_distances lib round1 hills_gdf max_distance_m =
     (if hills_gdf = [] then None
      else
        (let geoms = exploded lib hills_gdf
         in if length geoms < 2 then None
            else
              (let distances =
                     concat (map (nearest_row lib round1 geoms max_distance_m)
                               [0..<length geoms])
               in if distances = [] then None else Some distances)))"

text \<open>
  The invariant of the loop over the candidates of part \<open>i\<close>, after the candidates in
  \<open>S\<close>: either no other part has been seen and the minimum is still infinite, or the
  accumulator holds a part of \<open>S\<close> other than \<open>i\<close> with its distance, which is the least
  distance from \<open>i\<close> to a part of \<open>S\<close> other than \<open>i\<close>.
\<close>

definition scan_inv ::
  "'g geom_lib \<Rightarrow> 'g list \<Rightarrow> nat \<Rightarrow> nat set \<Rightarrow> real option \<times> int \<Rightarrow> bool" where
  "scan_inv lib geoms i S acc =
     (case fst acc of
        None \<Rightarrow> (\<forall>k \<in> S. k = i)
      | Some m \<Rightarrow>
          (\<exists>j \<in> S. j \<noteq> i \<and> snd acc = int j \<and>
                    m = distance lib (geoms ! i) (geoms ! j)) \<and>
          (\<forall>k \<in> S. k \<noteq> i \<longrightarrow> m \<le> distance lib (geoms ! i) (geoms ! k)))"

subsection \<open>A small instance of the library\<close>

text \<open>
  For concrete runs: geometries are intervals of the x axis, given by their two ends. An
  interval with its ends in the wrong order is invalid, and a buffer puts them in order, as
  a zero-width buffer repairs a polygon. Tracing yields one pixel-wide interval for each true
  cell; the contour tracer finds nothing.
\<close>

definition interval_lib :: "(real \<times> real) geom_lib" where
  "interval_lib =
     \<lparr>shapes = (\<lambda>msk tr. map (\<lambda>p. ((aff_c tr + of_nat (snd p) * aff_a tr,
                                      aff_c tr + of_nat (snd p + 1) * aff_a tr), 1))
                              (argwhere msk)),
      is_valid = (\<lambda>g. fst g \<le> snd g),
      is_empty = (\<lambda>g. fst g = snd g),
      area = (\<lambda>g. snd g - fst g),
      buffer = (\<lambda>g d. (min (fst g) (snd g) - d, max (fst g) (snd g) + d)),
      unary_union = (\<lambda>gs. if gs = [] then (0, 0)
                           else (min_list (map fst gs), max_list (map snd gs))),
      contains = (\<lambda>g p. fst g < fst p \<and> fst p < snd g),
      distance = (\<lambda>g h. max 0 (max (fst h - snd g) (fst g - snd h))),
      polygon = (\<lambda>vs. if vs = [] then None
                       else Some (min_list (map fst vs), max_list (map fst vs))),
      contour_paths = (\<lambda>Z tr level. Inr []),
      explode = (\<lambda>gs. Some gs),
      tree_query = (\<lambda>gs q. filter (\<lambda>j. fst (gs ! j) \<le> snd q \<and> fst q \<le> snd (gs ! j))
                                   [0..<length gs])\<rparr>"

definition unit_transform :: affine where
  "unit_transform = \<lparr>aff_a = 30, aff_c = 0, aff_e = - 30, aff_f = 0\<rparr>"

text \<open>
  A one-row DEM with a single summit, its parameters, a library whose contour tracer finds
  one closed ring at level 0 around the summit, and one whose tracer raises.
\<close>

definition example_dem :: dem_data where
  "example_dem =
     \<lparr>dem_elevation = [[Some 100, Some 350, Some 100]],
      dem_transform = \<lparr>aff_a = 100, aff_c = 0, aff_e = - 100, aff_f = 0\<rparr>,
      dem_crs = ''EPSG:32643'', dem_pixel_size_m = 100\<rparr>"

definition example_params :: params where
  "example_params = [''contour_interval_m'' \<mapsto> 250, ''relief_radius_m'' \<mapsto> 300]"

definition tracing_lib :: "(real \<times> real) geom_lib" where
  "tracing_lib = interval_lib\<lparr>contour_paths := (\<lambda>Z tr level.
      if level = 0
      then Inr [\<lparr>path_has_codes = True,
                 path_vertices = [(- 50, 0), (250, 0), (250, 1), (- 50, 1), (- 50, 0)]\<rparr>]
      else Inr [])\<rparr>"

definition failing_lib :: "(real \<times> real) geom_lib" where
  "failing_lib = interval_lib\<lparr>contour_paths := (\<lambda>Z tr level. Inl TraceError)\<rparr>"

text \<open>Three closed contours, out of order, two of them around the summit at x = 100.\<close>

definition example_contours :: "(real \<times> real) contour list" where
  "example_contours =
     [\<lparr>c_elevation = 200, c_geometry = (50, 150)\<rparr>,
      \<lparr>c_elevation = 100, c_geometry = (- 30, 290)\<rparr>,
      \<lparr>c_elevation = 150, c_geometry = (400, 500)\<rparr>]"

text \<open>
  A three-by-three DEM for the OLD method, a slope function that reports five degrees at
  every cell, parameters that give one iteration of closing and one of dilation, and the
  division on operands whose quotient is a double (30 / 30, 60 / 30, 2 / 2).
\<close>

definition old_example_dem :: dem_data where
  "old_example_dem =
     \<lparr>dem_elevation = [[Some 0, Some 3, Some 6], [Some 3, Some 6, Some 9],
                       [Some 6, Some 9, Some 12]],
      dem_transform = \<lparr>aff_a = 30, aff_c = 0, aff_e = - 30, aff_f = 0\<rparr>,
      dem_crs = ''EPSG:32643'', dem_pixel_size_m = 30\<rparr>"

definition five_degrees :: "real grid \<Rightarrow> real \<Rightarrow> real grid" where
  "five_degrees Z pixel_size = grid_map (\<lambda>z. 5) Z"

definition old_example_params :: params where
  "old_example_params =
     [''slope_threshold_deg'' \<mapsto> 3, ''foothill_buffer_m'' \<mapsto> 30, ''gap_bridge_m'' \<mapsto> 60]"

definition exact_div :: float_div where
  "exact_div x y = Some (x / y)"

text \<open>
  A run of the polygonizer on a region that touches itself at a corner: seven cells around
  a hole, with the cell diagonal to the hole missing. The polygonizer of GDAL behind
  \<open>rasterio.features.shapes\<close> follows the boundary through the common vertex of the hole
  and the missing cell, so the ring of the region passes twice through that vertex. Shapely
  reports such a ring (a self-touching ring forming a hole) as invalid, and its zero-width
  buffer is the valid polygon with the hole as an interior ring. Here a geometry is a list
  of rings, the exterior first; a ring is valid when it passes through no vertex twice, and
  the zero-width buffer splits a ring at the first vertex it passes twice.
\<close>

definition pinch_mask :: "bool grid" where
  "pinch_mask = [[True, True, True], [True, False, True], [True, True, False]]"

definition pinch_ring :: "(real \<times> real) list" where
  "pinch_ring =
     [(0, 0), (0, 3), (2, 3), (2, 2), (1, 2), (1, 1), (2, 1), (2, 2), (3, 2), (3, 0), (0, 0)]"

definition corner_xy :: "affine \<Rightarrow> real \<times> real \<Rightarrow> real \<times> real" where
  "corner_xy tr p = (aff_c tr + fst p * aff_a tr, aff_f tr + snd p * aff_e tr)"

definition split_ring :: "'a list \<Rightarrow> 'a list list" where
  "split_ring ring =
     (let n = length ring - 1;
          twice = concat (map (\<lambda>i. map (\<lambda>j. (i, j))
                                        (filter (\<lambda>j. ring ! i = ring ! j) [Suc i..<n]))
                              [0..<n])
      in case twice of
           [] \<Rightarrow> [ring]
         | (i, j) # _ \<Rightarrow> [take (Suc i) ring @ drop (Suc j) ring, drop i (take (Suc j) ring)])"

definition ring_lib :: "((real \<times> real) list list) geom_lib" where
  "ring_lib =
     \<lparr>shapes = (\<lambda>msk tr. if msk = pinch_mask
                          then [([map (corner_xy tr) pinch_ring], 1)] else []),
      is_valid = (\<lambda>g. list_all (\<lambda>ring. distinct (butlast ring)) g),
      is_empty = (\<lambda>g. g = []),
      area = (\<lambda>g. 0),
      buffer = (\<lambda>g d. if d = 0 then concat (map split_ring g) else g),
      unary_union = concat,
      contains = (\<lambda>g p. False),
      distance = (\<lambda>g h. 0),
      polygon = (\<lambda>vs. Some [vs]),
      contour_paths = (\<lambda>Z tr level. Inr []),
      explode = (\<lambda>gs. Some gs),
      tree_query = (\<lambda>gs q. [0..<length gs])\<rparr>"


text \<open>
  Three hills on a line, 100 m and 300 m apart, and the rounding to one decimal of a value
  that has a single decimal already.
\<close>

definition hills_on_a_line :: "(real \<times> real) list" where
  "hills_on_a_line = [(0, 10), (110, 120), (420, 430)]"

definition round_half_even :: "real \<Rightarrow> int" where
  "round_half_even y =
     (let fl = \<lfloor>y\<rfloor>; d = y - of_int fl
      in if d < 1 / 2 then fl
         else if 1 / 2 < d then fl + 1
         else if even fl then fl else fl + 1)"

definition decimal_round1 :: "real \<Rightarrow> real" where
  "decimal_round1 x = of_int (round_half_even (x * 10)) / 10"

section \<open>Shapes of grids\<close>

lemma has_shape_nth:
  assumes "has_shape g m n" and "i < m"
  shows "length (g ! i) = n"
  using assms by (simp add: has_shape_def list_all_length)

lemma has_shape_tabulate2: "has_shape (tabulate2 m n f) m n"
  by (simp add: has_shape_def tabulate2_def list_all_iff)

lemma tabulate2_nth:
  assumes "i < m" and "j < n"
  shows "tabulate2 m n f ! i ! j = f i j"
  using assms by (simp add: tabulate2_def)

lemma has_shape_grid_map: "has_shape g m n \<Longrightarrow> has_shape (grid_map f g) m n"
  by (simp add: has_shape_def grid_map_def list_all_iff)

lemma grid_map_nth:
  assumes "i < length g" and "j < length (g ! i)"
  shows "grid_map f g ! i ! j = f (g ! i ! j)"
  using assms by (simp add: grid_map_def)

lemma has_shape_grid_map2:
  assumes "has_shape g m n" and "has_shape h m n"
  shows "has_shape (grid_map2 f g h) m n"
proof -
  have len: "length (grid_map2 f g h) = m"
    using assms by (simp add: has_shape_def grid_map2_def)
  have "length (grid_map2 f g h ! i) = n" if "i < m" for i
  proof -
    have "length (g ! i) = n" and "length (h ! i) = n"
      using assms that by (simp_all add: has_shape_nth)
    moreover have "i < length g" and "i < length h"
      using assms that by (simp_all add: has_shape_def)
    ultimately show ?thesis by (simp add: grid_map2_def)
  qed
  with len show ?thesis by (simp add: has_shape_def list_all_length)
qed

lemma grid_map2_nth:
  assumes "has_shape g m n" and "has_shape h m n" and "i < m" and "j < n"
  shows "grid_map2 f g h ! i ! j = f (g ! i ! j) (h ! i ! j)"
proof -
  have "length (g ! i) = n" and "length (h ! i) = n"
    using assms by (simp_all add: has_shape_nth)
  moreover have "i < length g" and "i < length h"
    using assms by (simp_all add: has_shape_def)
  ultimately show ?thesis using assms(4) by (simp add: grid_map2_def)
qed

lemma has_shape_eqI:
  assumes "has_shape g m n" and "has_shape h m n"
    and "\<And>i j. i < m \<Longrightarrow> j < n \<Longrightarrow> g ! i ! j = h ! i ! j"
  shows "g = h"
proof (rule nth_equalityI)
  show "length g = length h" using assms(1,2) by (simp add: has_shape_def)
next
  fix i assume "i < length g"
  then have i: "i < m" using assms(1) by (simp add: has_shape_def)
  show "g ! i = h ! i"
  proof (rule nth_equalityI)
    show "length (g ! i) = length (h ! i)"
      using assms(1,2) i by (simp add: has_shape_nth)
  next
    fix j assume "j < length (g ! i)"
    then have "j < n" using assms(1) i by (simp add: has_shape_nth)
    with i show "g ! i ! j = h ! i ! j" by (rule assms(3))
  qed
qed

lemma ncols_has_shape:
  assumes "has_shape g m n" and "0 < m"
  shows "ncols g = n"
proof (cases g)
  case Nil
  with assms show ?thesis by (simp add: has_shape_def)
next
  case (Cons r rs)
  with assms show ?thesis by (simp add: has_shape_def ncols_def)
qed

lemma has_shape_isfinite: "has_shape Z m n \<Longrightarrow> has_shape (isfinite Z) m n"
  by (simp add: isfinite_def has_shape_grid_map)

lemma has_shape_relief_filled: "has_shape Z m n \<Longrightarrow> has_shape (relief_filled Z) m n"
  by (simp add: relief_filled_def fill_nonfinite_def has_shape_grid_map)

section \<open>The window contains its own cell\<close>

lemma reflect_index_inside:
  assumes "i < n"
  shows "reflect_index n (int i) = i"
proof -
  have "int i mod (2 * int n) = int i" using assms by simp
  then show ?thesis using assms by (simp add: reflect_index_def)
qed

lemma zero_in_window_offsets:
  assumes "0 < w"
  shows "0 \<in> set (window_offsets w)"
proof -
  have "w div 2 < w" using assms by simp
  then have "int (w div 2) - int (w div 2) \<in> (\<lambda>t. int t - int (w div 2)) ` {0..<w}"
    by (intro imageI) simp
  then show ?thesis by (simp add: window_offsets_def)
qed

lemma in_set_concat_map2:
  assumes "x \<in> set xs" and "y \<in> set ys"
  shows "f x y \<in> set (concat (map (\<lambda>a. map (\<lambda>b. f a b) ys) xs))"
  using assms by auto

lemma cell_in_window_values:
  assumes "0 < w" and "i < nrows g" and "j < ncols g"
  shows "g ! i ! j \<in> set (window_values w g i j)"
proof -
  define f where "f = (\<lambda>di dj. g ! reflect_index (nrows g) (int i + di)
                                  ! reflect_index (ncols g) (int j + dj))"
  have z: "0 \<in> set (window_offsets w)" using assms(1) by (rule zero_in_window_offsets)
  have "f 0 0 \<in> set (concat (map (\<lambda>a. map (\<lambda>b. f a b) (window_offsets w)) (window_offsets w)))"
    using z z by (rule in_set_concat_map2)
  moreover have "f 0 0 = g ! i ! j"
    using assms(2,3) by (simp add: f_def reflect_index_inside)
  ultimately show ?thesis by (simp add: window_values_def f_def)
qed

lemma min_list_le:
  fixes xs :: "real list"
  assumes "x \<in> set xs"
  shows "min_list xs \<le> x"
proof -
  have "xs \<noteq> []" using assms by auto
  then have "min_list xs = Min (set xs)" by (rule min_list_Min)
  then show ?thesis using assms by simp
qed

lemma minimum_filter_le:
  assumes "0 < w" and "i < nrows g" and "j < ncols g"
  shows "minimum_filter w g ! i ! j \<le> g ! i ! j"
proof -
  have "minimum_filter w g ! i ! j = min_list (window_values w g i j)"
    using assms(2,3) by (simp add: minimum_filter_def tabulate2_nth)
  then show ?thesis using cell_in_window_values [OF assms] by (simp add: min_list_le)
qed

lemma relief_grid_nth:
  assumes "has_shape Z m n" and "i < m" and "j < n"
  shows "relief_grid w Z ! i ! j =
         relief_filled Z ! i ! j - minimum_filter w (relief_filled Z) ! i ! j"
proof -
  let ?zf = "relief_filled Z"
  have zf: "has_shape ?zf m n" using assms(1) by (rule has_shape_relief_filled)
  have "0 < m" using assms(2) by simp
  then have nc: "ncols ?zf = n" using zf by (simp add: ncols_has_shape)
  have nr: "nrows ?zf = m" using zf by (simp add: has_shape_def nrows_def)
  have lm: "has_shape (minimum_filter w ?zf) m n"
    by (simp add: minimum_filter_def nc nr has_shape_tabulate2)
  show ?thesis
    unfolding relief_grid_def Let_def
    by (rule grid_map2_nth [OF zf lm assms(2,3)])
qed

lemma has_shape_relief_grid:
  assumes "has_shape Z m n" and "0 < m"
  shows "has_shape (relief_grid w Z) m n"
proof -
  let ?zf = "relief_filled Z"
  have zf: "has_shape ?zf m n" using assms(1) by (rule has_shape_relief_filled)
  have nc: "ncols ?zf = n" using zf assms(2) by (simp add: ncols_has_shape)
  have nr: "nrows ?zf = m" using zf by (simp add: has_shape_def nrows_def)
  have lm: "has_shape (minimum_filter w ?zf) m n"
    by (simp add: minimum_filter_def nc nr has_shape_tabulate2)
  show ?thesis
    unfolding relief_grid_def Let_def by (rule has_shape_grid_map2 [OF zf lm])
qed

lemma relief_grid_nonneg:
  assumes "has_shape Z m n" and "0 < w" and "i < m" and "j < n"
  shows "0 \<le> relief_grid w Z ! i ! j"
proof -
  let ?zf = "relief_filled Z"
  have zf: "has_shape ?zf m n" using assms(1) by (rule has_shape_relief_filled)
  have "0 < m" using assms(3) by simp
  then have nc: "ncols ?zf = n" using zf by (simp add: ncols_has_shape)
  have nr: "nrows ?zf = m" using zf by (simp add: has_shape_def nrows_def)
  have "minimum_filter w ?zf ! i ! j \<le> ?zf ! i ! j"
    using assms(2,3,4) by (intro minimum_filter_le) (simp_all add: nc nr)
  then show ?thesis using relief_grid_nth [OF assms(1,3,4), of w] by simp
qed

section \<open>Window size of the local-relief filter\<close>

text \<open>
  C9. For every relief radius greater than zero and every pixel size greater than zero the
  window size of the minimum filter is computed without error, is odd and is at least 3.
\<close>

theorem window_size_odd_ge_3:
  assumes "0 < relief_radius" and "0 < pixel_size"
  shows "\<exists>w. window_size relief_radius pixel_size = Inr w \<and> odd w \<and> 3 \<le> w"
proof -
  define w0 where "w0 = max 3 (py_int (relief_radius / pixel_size))"
  have ge: "3 \<le> w0" by (simp add: w0_def)
  have eq: "window_size relief_radius pixel_size = Inr (if w0 mod 2 = 0 then w0 + 1 else w0)"
    using assms(2) by (simp add: window_size_def w0_def Let_def)
  show ?thesis
  proof (cases "w0 mod 2 = 0")
    case True
    then have "odd (w0 + 1)" by presburger
    with True ge eq show ?thesis by simp
  next
    case False
    then have "odd w0" by presburger
    with False ge eq show ?thesis by simp
  qed
qed

theorem window_size_odd_ge_3_witness:
  "(0::real) < 2000 \<and> (0::real) < 30 \<and>
   (\<exists>w. window_size 2000 30 = Inr w \<and> odd w \<and> 3 \<le> w)"
  using window_size_odd_ge_3 [of 2000 30] by simp

section \<open>Relief of the fast method is never negative\<close>

text \<open>
  C10. On every rectangular grid and for every window size greater than zero, the relief
  grid of the fast method (filled elevation minus its sliding-window minimum) is at least
  zero at every cell, because the window of a cell contains the cell; and with a relief
  threshold of 0 the relief mask is exactly the mask of the finite cells.
\<close>

theorem relief_nonneg_and_zero_threshold:
  assumes "is_rect Z" and "0 < w"
  shows "(\<forall>i<nrows Z. \<forall>j<ncols Z. 0 \<le> relief_grid w Z ! i ! j) \<and>
         relief_mask w 0 Z = isfinite Z"
proof
  have sh: "has_shape Z (nrows Z) (ncols Z)" using assms(1) by (simp add: is_rect_def)
  show "\<forall>i<nrows Z. \<forall>j<ncols Z. 0 \<le> relief_grid w Z ! i ! j"
    using relief_grid_nonneg [OF sh assms(2)] by blast
  show "relief_mask w 0 Z = isfinite Z"
  proof (cases "nrows Z = 0")
    case True
    then have "Z = []" by (simp add: nrows_def)
    then show ?thesis by (simp add: relief_mask_def isfinite_def grid_map_def grid_map2_def)
  next
    case False
    then have pos: "0 < nrows Z" by simp
    let ?m = "nrows Z" and ?n = "ncols Z"
    have rg: "has_shape (relief_grid w Z) ?m ?n" using sh pos by (rule has_shape_relief_grid)
    have ge: "has_shape (grid_map (\<lambda>r. 0 \<le> r) (relief_grid w Z)) ?m ?n"
      using rg by (rule has_shape_grid_map)
    have fin: "has_shape (isfinite Z) ?m ?n" using sh by (rule has_shape_isfinite)
    have lhs: "has_shape (relief_mask w 0 Z) ?m ?n"
      unfolding relief_mask_def by (rule has_shape_grid_map2 [OF ge fin])
    show ?thesis
    proof (rule has_shape_eqI [OF lhs fin])
      fix i j assume i: "i < ?m" and j: "j < ?n"
      have "length (relief_grid w Z) = ?m" using rg by (simp add: has_shape_def)
      moreover have "length (relief_grid w Z ! i) = ?n" using rg i by (rule has_shape_nth)
      ultimately have "grid_map (\<lambda>r. 0 \<le> r) (relief_grid w Z) ! i ! j
                         = (0 \<le> relief_grid w Z ! i ! j)"
        using i j by (simp add: grid_map_nth)
      moreover have "0 \<le> relief_grid w Z ! i ! j"
        using relief_grid_nonneg [OF sh assms(2) i j] .
      ultimately show "relief_mask w 0 Z ! i ! j = isfinite Z ! i ! j"
        unfolding relief_mask_def
        using grid_map2_nth [OF ge fin i j, where f = "(\<and>)"] by simp
    qed
  qed
qed

lemma small_grid_is_rect: "is_rect [[Some 5, None], [Some 3, Some (9::real)]]"
  by (simp add: is_rect_def has_shape_def nrows_def ncols_def)

theorem relief_nonneg_and_zero_threshold_witness:
  "is_rect [[Some 5, None], [Some 3, Some (9::real)]] \<and> (0::nat) < 3 \<and>
   (1::nat) < nrows [[Some 5, None], [Some 3, Some (9::real)]] \<and>
   (1::nat) < ncols [[Some 5, None], [Some 3, Some (9::real)]] \<and>
   0 \<le> relief_grid 3 [[Some 5, None], [Some 3, Some 9]] ! 1 ! 1 \<and>
   relief_mask 3 0 [[Some 5, None], [Some 3, Some (9::real)]]
     = isfinite [[Some 5, None], [Some 3, Some 9]]"
proof -
  have d: "(1::nat) < nrows [[Some 5, None], [Some 3, Some (9::real)]]"
          "(1::nat) < ncols [[Some 5, None], [Some 3, Some (9::real)]]"
    by (simp_all add: nrows_def ncols_def)
  show ?thesis
    using relief_nonneg_and_zero_threshold [OF small_grid_is_rect, of 3] small_grid_is_rect d
    by simp
qed

section \<open>The polygonizer drops invalid polygons without repair\<close>

lemma collect_geoms_filter:
  "collect_geoms lib ps =
     filter (\<lambda>g. is_valid lib g \<and> \<not> is_empty lib g) (map fst (filter (\<lambda>p. snd p = 1) ps))"
  by (induction ps) auto

text \<open>
  C2, as the code has it. The polygonizer keeps, in tracing order, exactly the traced
  polygons of value 1 that are valid and not empty, as they were traced; every other
  polygon is dropped at once, and no zero-width buffer is applied to it. The zero-width
  buffer comes afterwards, in the dissolve step of the OLD method and of the relief method,
  and is applied to the polygons that were kept.
\<close>

theorem polygonize_mask_keeps_valid_only:
  "polygonize_mask lib msk tr =
     filter (\<lambda>g. is_valid lib g \<and> \<not> is_empty lib g)
       (map fst (filter (\<lambda>p. snd p = 1) (shapes lib msk tr))) \<and>
   compute_old_delineation lib fdiv slope_of urban_mask dem params =
     (case old_final_mask fdiv slope_of urban_mask dem params of
        Inl err \<Rightarrow> Inl err
      | Inr None \<Rightarrow> Inr EmptyLayer
      | Inr (Some final_mask) \<Rightarrow>
          (let kept = filter (\<lambda>g. is_valid lib g \<and> \<not> is_empty lib g)
                        (map fst (filter (\<lambda>p. snd p = 1)
                                    (shapes lib final_mask (dem_transform dem))))
           in if kept = [] then Inr EmptyLayer
              else Inr (Layer ''OLD_FSI_like''
                          (unary_union lib (map (\<lambda>g. buffer lib g 0) kept))))) \<and>
   compute_relief_method lib dem params =
     (case window_size (params_get params ''relief_radius_m'' 2000) (dem_pixel_size_m dem) of
        Inl err \<Rightarrow> Inl err
      | Inr window \<Rightarrow>
          (let rmask = relief_mask (nat window) (params_get params ''relief_threshold_m'' 100)
                         (dem_elevation dem);
               kept = filter (\<lambda>g. is_valid lib g \<and> \<not> is_empty lib g)
                        (map fst (filter (\<lambda>p. snd p = 1)
                                    (shapes lib rmask (dem_transform dem))))
           in if count_true rmask = 0 \<or> kept = [] then Inr EmptyLayer
              else Inr (Layer ''NEW_2025_relief''
                          (cluster_by_proximity lib
                             (unary_union lib (map (\<lambda>g. buffer lib g 0) kept))
                             (params_get params ''range_proximity_m'' 500)))))"
proof (intro conjI)
  show p: "polygonize_mask lib msk tr =
     filter (\<lambda>g. is_valid lib g \<and> \<not> is_empty lib g)
       (map fst (filter (\<lambda>p. snd p = 1) (shapes lib msk tr)))" for msk tr
    by (simp add: polygonize_mask_def collect_geoms_filter)
  show "compute_old_delineation lib fdiv slope_of urban_mask dem params =
     (case old_final_mask fdiv slope_of urban_mask dem params of
        Inl err \<Rightarrow> Inl err
      | Inr None \<Rightarrow> Inr EmptyLayer
      | Inr (Some final_mask) \<Rightarrow>
          (let kept = filter (\<lambda>g. is_valid lib g \<and> \<not> is_empty lib g)
                        (map fst (filter (\<lambda>p. snd p = 1)
                                    (shapes lib final_mask (dem_transform dem))))
           in if kept = [] then Inr EmptyLayer
              else Inr (Layer ''OLD_FSI_like''
                          (unary_union lib (map (\<lambda>g. buffer lib g 0) kept)))))"
    unfolding compute_old_delineation_def p
    by (simp add: Let_def split: sum.splits option.splits)
  show "compute_relief_method lib dem params =
     (case window_size (params_get params ''relief_radius_m'' 2000) (dem_pixel_size_m dem) of
        Inl err \<Rightarrow> Inl err
      | Inr window \<Rightarrow>
          (let rmask = relief_mask (nat window) (params_get params ''relief_threshold_m'' 100)
                         (dem_elevation dem);
               kept = filter (\<lambda>g. is_valid lib g \<and> \<not> is_empty lib g)
                        (map fst (filter (\<lambda>p. snd p = 1)
                                    (shapes lib rmask (dem_transform dem))))
           in if count_true rmask = 0 \<or> kept = [] then Inr EmptyLayer
              else Inr (Layer ''NEW_2025_relief''
                          (cluster_by_proximity lib
                             (unary_union lib (map (\<lambda>g. buffer lib g 0) kept))
                             (params_get params ''range_proximity_m'' 500)))))"
    unfolding compute_relief_method_def p cluster_by_proximity_def Let_def
    by (simp split: sum.splits)
qed

text \<open>
  C2 as stated fails on the pinched region: the ring traced for it passes twice through
  the vertex (60, -60) and is invalid; its zero-width buffer, the exterior ring with the
  hole as second ring, is valid and not empty; the polygonizer returns nothing.
\<close>

theorem polygonize_no_repair_counterexample:
  "shapes ring_lib pinch_mask unit_transform =
     [([[(0, 0), (0, - 90), (60, - 90), (60, - 60), (30, - 60), (30, - 30), (60, - 30),
         (60, - 60), (90, - 60), (90, 0), (0, 0)]], 1)] \<and>
   \<not> is_valid ring_lib
       [[(0, 0), (0, - 90), (60, - 90), (60, - 60), (30, - 60), (30, - 30), (60, - 30),
         (60, - 60), (90, - 60), (90, 0), (0, 0)]] \<and>
   buffer ring_lib
       [[(0, 0), (0, - 90), (60, - 90), (60, - 60), (30, - 60), (30, - 30), (60, - 30),
         (60, - 60), (90, - 60), (90, 0), (0, 0)]] 0 =
     [[(0, 0), (0, - 90), (60, - 90), (60, - 60), (90, - 60), (90, 0), (0, 0)],
      [(60, - 60), (30, - 60), (30, - 30), (60, - 30), (60, - 60)]] \<and>
   is_valid ring_lib
     [[(0, 0), (0, - 90), (60, - 90), (60, - 60), (90, - 60), (90, 0), (0, 0)],
      [(60, - 60), (30, - 60), (30, - 30), (60, - 30), (60, - 60)]] \<and>
   \<not> is_empty ring_lib
     [[(0, 0), (0, - 90), (60, - 90), (60, - 60), (90, - 60), (90, 0), (0, 0)],
      [(60, - 60), (30, - 60), (30, - 30), (60, - 30), (60, - 60)]] \<and>
   polygonize_mask ring_lib pinch_mask unit_transform = []"
proof -
  have ring: "map (corner_xy unit_transform) pinch_ring =
      [(0, 0), (0, - 90), (60, - 90), (60, - 60), (30, - 60), (30, - 30), (60, - 30),
       (60, - 60), (90, - 60), (90, 0), (0, 0)]"
    by (simp add: corner_xy_def unit_transform_def pinch_ring_def)
  have sh: "shapes ring_lib pinch_mask unit_transform =
     [([[(0, 0), (0, - 90), (60, - 90), (60, - 60), (30, - 60), (30, - 30), (60, - 30),
         (60, - 60), (90, - 60), (90, 0), (0, 0)]], 1)]"
    by (simp add: ring_lib_def ring)
  have inv: "\<not> is_valid ring_lib
       [[(0, 0), (0, - 90), (60, - 90), (60, - 60), (30, - 60), (30, - 30), (60, - 30),
         (60, - 60), (90, - 60), (90, 0), (0, 0)]]"
    by (simp add: ring_lib_def)
  have buf: "buffer ring_lib
       [[(0, 0), (0, - 90), (60, - 90), (60, - 60), (30, - 60), (30, - 30), (60, - 30),
         (60, - 60), (90, - 60), (90, 0), (0, 0)]] 0 =
     [[(0, 0), (0, - 90), (60, - 90), (60, - 60), (90, - 60), (90, 0), (0, 0)],
      [(60, - 60), (30, - 60), (30, - 30), (60, - 30), (60, - 60)]]"
    by code_simp
  have val: "is_valid ring_lib
     [[(0, 0), (0, - 90), (60, - 90), (60, - 60), (90, - 60), (90, 0), (0, 0)],
      [(60, - 60), (30, - 60), (30, - 30), (60, - 30), (60, - 60)]]"
    by (simp add: ring_lib_def)
  have ne: "\<not> is_empty ring_lib
     [[(0, 0), (0, - 90), (60, - 90), (60, - 60), (90, - 60), (90, 0), (0, 0)],
      [(60, - 60), (30, - 60), (30, - 30), (60, - 30), (60, - 60)]]"
    by (simp add: ring_lib_def)
  have pol: "polygonize_mask ring_lib pinch_mask unit_transform = []"
    unfolding polygonize_mask_def sh using inv by simp
  show ?thesis using sh inv buf val ne pol by blast
qed

section \<open>Fallback of the contour method\<close>

lemma relief_method_no_error:
  assumes "dem_pixel_size_m dem \<noteq> 0"
  shows "\<exists>layer. compute_relief_method lib dem params = Inr layer"
proof -
  obtain w where w: "window_size (params_get params ''relief_radius_m'' 2000)
                       (dem_pixel_size_m dem) = Inr w"
    using assms by (simp add: window_size_def Let_def)
  show ?thesis
    unfolding compute_relief_method_def Let_def w by simp
qed

text \<open>
  C3. Whenever the contour method reaches the tracing of contours (the DEM has a finite
  cell and the contour levels were computed) and the tracing raises an exception or yields
  no closed contour, the contour method returns what the relief method returns on the same
  DEM and parameters; with a pixel size other than zero that is a layer, not an error.
\<close>

theorem contour_fallback_to_relief:
  assumes "np_any (isfinite (dem_elevation dem))"
    and "contour_levels (contour_filled (dem_elevation dem))
           (params_get params ''contour_interval_m'' 10) = Inr levels"
    and "trace_levels lib (contour_filled (dem_elevation dem)) (dem_transform dem)
           (dem_pixel_size_m dem) levels = Inl err
         \<or> trace_levels lib (contour_filled (dem_elevation dem)) (dem_transform dem)
           (dem_pixel_size_m dem) levels = Inr []"
  shows "compute_contour_method lib dem params = compute_relief_method lib dem params \<and>
         (dem_pixel_size_m dem \<noteq> 0 \<longrightarrow>
            (\<exists>layer. compute_contour_method lib dem params = Inr layer))"
proof -
  have eq: "compute_contour_method lib dem params = compute_relief_method lib dem params"
    using assms(3)
  proof
    assume "trace_levels lib (contour_filled (dem_elevation dem)) (dem_transform dem)
           (dem_pixel_size_m dem) levels = Inl err"
    then show ?thesis
      unfolding compute_contour_method_def Let_def using assms(1,2) by simp
  next
    assume "trace_levels lib (contour_filled (dem_elevation dem)) (dem_transform dem)
           (dem_pixel_size_m dem) levels = Inr []"
    then show ?thesis
      unfolding compute_contour_method_def Let_def using assms(1,2) by simp
  qed
  show ?thesis using eq relief_method_no_error [of dem lib params] by simp
qed

lemmas grid_defs = nrows_def ncols_def tabulate2_def grid_map_def grid_map2_def count_true_def
  isfinite_def np_any_def finite_values_def fill_nonfinite_def List.map_filter_def

lemma example_any_finite: "np_any (isfinite (dem_elevation example_dem))"
  by (simp add: example_dem_def grid_defs)

lemma example_contour_filled: "contour_filled (dem_elevation example_dem) = [[100, 350, 100]]"
  by (simp add: example_dem_def contour_filled_def grid_defs)

lemma example_contour_levels: "contour_levels [[100, 350, 100]] 250 = Inr [0, 250, 500]"
proof -
  have f: "\<lfloor>(100::real) / 250\<rfloor> = 0" by simp
  have "(350::real) / 250 = 7 / 5" by simp
  then have c: "\<lceil>(350::real) / 250\<rceil> = 2" by (simp add: ceiling_eq_iff)
  have u: "[0..<3] = [0, 1, 2]" by (simp add: upt_rec)
  show ?thesis
    unfolding contour_levels_def Let_def by (simp add: f c u)
qed

lemma example_contour_interval: "params_get example_params ''contour_interval_m'' 10 = 250"
  by (simp add: params_get_def example_params_def)

lemma example_levels:
  "contour_levels (contour_filled (dem_elevation example_dem))
     (params_get example_params ''contour_interval_m'' 10) = Inr [0, 250, 500]"
  by (simp add: example_contour_filled example_contour_interval example_contour_levels)

theorem contour_fallback_to_relief_witness:
  "np_any (isfinite (dem_elevation example_dem)) \<and>
   contour_levels (contour_filled (dem_elevation example_dem))
           (params_get example_params ''contour_interval_m'' 10) = Inr [0, 250, 500] \<and>
   trace_levels failing_lib (contour_filled (dem_elevation example_dem))
           (dem_transform example_dem) (dem_pixel_size_m example_dem) [0, 250, 500]
     = Inl TraceError \<and>
   compute_contour_method failing_lib example_dem example_params
     = compute_relief_method failing_lib example_dem example_params \<and>
   dem_pixel_size_m example_dem \<noteq> 0 \<and>
   (\<exists>layer. compute_contour_method failing_lib example_dem example_params = Inr layer)"
proof -
  have h1: "np_any (isfinite (dem_elevation example_dem))" by (rule example_any_finite)
  have h2: "contour_levels (contour_filled (dem_elevation example_dem))
           (params_get example_params ''contour_interval_m'' 10) = Inr [0, 250, 500]"
    by (rule example_levels)
  have h3: "trace_levels failing_lib (contour_filled (dem_elevation example_dem))
           (dem_transform example_dem) (dem_pixel_size_m example_dem) [0, 250, 500]
     = Inl TraceError"
    by (simp add: failing_lib_def)
  have h4: "dem_pixel_size_m example_dem \<noteq> 0" by (simp add: example_dem_def)
  show ?thesis
    using contour_fallback_to_relief [OF h1 h2 disjI1 [OF h3]] h1 h2 h3 h4 by blast
qed

section \<open>Enclosure search of the contour method\<close>

lemma scan_contours_find:
  "scan_contours lib thr pe pt xs =
     (case List.find (\<lambda>c. contains lib (c_geometry c) pt) xs of
        None \<Rightarrow> []
      | Some c \<Rightarrow> if thr \<le> pe - c_elevation c
                  then [\<lparr>h_peak_elev = pe, h_base_elev = c_elevation c,
                         h_relief = pe - c_elevation c, h_geometry = c_geometry c\<rparr>]
                  else [])"
  by (induction xs) (simp_all add: Let_def)

lemma find_sorted_lowest:
  assumes "sorted (map f xs)" and "List.find P xs = Some c" and "d \<in> set xs" and "P d"
  shows "f c \<le> f d"
proof -
  from assms(2) obtain i where i: "i < length xs" "xs ! i = c" "\<forall>j<i. \<not> P (xs ! j)"
    by (auto simp: find_Some_iff)
  from assms(3) obtain k where k: "k < length xs" "xs ! k = d"
    by (auto simp: in_set_conv_nth)
  have "i \<le> k" using i(3) k(2) assms(4) by (metis not_le)
  then have "map f xs ! i \<le> map f xs ! k"
    using assms(1) k(1) by (simp add: sorted_iff_nth_mono del: nth_map)
  then show ?thesis using i k by simp
qed

text \<open>
  C1. The closed contours are sorted ascending by elevation (a permutation of the contours
  found). The footprints are collected peak by peak, in the order of the peaks. For every
  peak the scan returns what the first contour of the sorted list that contains the peak
  point gives, and nothing when no contour contains it: the relief is the peak elevation
  minus the elevation of that contour, and the footprint is kept exactly when the relief is
  at least the threshold. That first contour has the lowest elevation among all contours
  containing the peak point.
\<close>

theorem lowest_enclosing_contour:
  "sorted (map c_elevation (sort_key c_elevation cs)) \<and>
   mset (sort_key c_elevation cs) = mset cs \<and>
   hill_footprints lib thr tr Zf cs peaks =
     concat (map (\<lambda>p. scan_contours lib thr (Zf ! fst p ! snd p) (peak_point_of tr p)
                         (sort_key c_elevation cs)) peaks) \<and>
   (\<forall>p \<in> set peaks.
      scan_contours lib thr (Zf ! fst p ! snd p) (peak_point_of tr p) (sort_key c_elevation cs) =
        (case List.find (\<lambda>c. contains lib (c_geometry c) (peak_point_of tr p))
                (sort_key c_elevation cs) of
           None \<Rightarrow> []
         | Some c \<Rightarrow>
             if thr \<le> Zf ! fst p ! snd p - c_elevation c
             then [\<lparr>h_peak_elev = Zf ! fst p ! snd p, h_base_elev = c_elevation c,
                    h_relief = Zf ! fst p ! snd p - c_elevation c,
                    h_geometry = c_geometry c\<rparr>]
             else []) \<and>
      (\<forall>c. List.find (\<lambda>c. contains lib (c_geometry c) (peak_point_of tr p))
               (sort_key c_elevation cs) = Some c \<longrightarrow>
           (\<forall>d \<in> set cs. contains lib (c_geometry d) (peak_point_of tr p) \<longrightarrow>
                c_elevation c \<le> c_elevation d)))"
proof (intro conjI ballI allI impI)
  show "sorted (map c_elevation (sort_key c_elevation cs))" by simp
  show "mset (sort_key c_elevation cs) = mset cs" by simp
  show "hill_footprints lib thr tr Zf cs peaks =
     concat (map (\<lambda>p. scan_contours lib thr (Zf ! fst p ! snd p) (peak_point_of tr p)
                         (sort_key c_elevation cs)) peaks)"
    by (simp add: hill_footprints_def Let_def)
next
  fix p
  show "scan_contours lib thr (Zf ! fst p ! snd p) (peak_point_of tr p) (sort_key c_elevation cs) =
        (case List.find (\<lambda>c. contains lib (c_geometry c) (peak_point_of tr p))
                (sort_key c_elevation cs) of
           None \<Rightarrow> []
         | Some c \<Rightarrow>
             if thr \<le> Zf ! fst p ! snd p - c_elevation c
             then [\<lparr>h_peak_elev = Zf ! fst p ! snd p, h_base_elev = c_elevation c,
                    h_relief = Zf ! fst p ! snd p - c_elevation c,
                    h_geometry = c_geometry c\<rparr>]
             else [])"
    by (rule scan_contours_find)
next
  fix p c d
  assume f: "List.find (\<lambda>c. contains lib (c_geometry c) (peak_point_of tr p))
               (sort_key c_elevation cs) = Some c"
    and d: "d \<in> set cs" "contains lib (c_geometry d) (peak_point_of tr p)"
  have s: "sorted (map c_elevation (sort_key c_elevation cs))" by simp
  have d': "d \<in> set (sort_key c_elevation cs)" using d(1) by simp
  show "c_elevation c \<le> c_elevation d"
    by (rule find_sorted_lowest [OF s f d' d(2)])
qed

lemma example_find:
  "List.find (\<lambda>c. contains interval_lib (c_geometry c)
                     (peak_point_of (dem_transform example_dem) (0, 1)))
     (sort_key c_elevation example_contours)
   = Some \<lparr>c_elevation = 100, c_geometry = (- 30, 290)\<rparr>"
  by (simp add: example_contours_def peak_point_of_def example_dem_def interval_lib_def)

lemma example_footprints:
  "hill_footprints interval_lib 100 (dem_transform example_dem) [[100, 350, 100]]
     example_contours [(0, 1)] =
   [\<lparr>h_peak_elev = 350, h_base_elev = 100, h_relief = 250, h_geometry = (- 30, 290)\<rparr>]"
  by (simp add: hill_footprints_def example_contours_def peak_point_of_def example_dem_def
        interval_lib_def)

lemma example_higher_contour:
  "\<lparr>c_elevation = 200, c_geometry = (50, 150)\<rparr> \<in> set example_contours"
  "contains interval_lib (c_geometry \<lparr>c_elevation = 200, c_geometry = (50, 150)\<rparr>)
     (peak_point_of (dem_transform example_dem) (0, 1))"
  by (simp_all add: example_contours_def peak_point_of_def example_dem_def interval_lib_def)

theorem lowest_enclosing_contour_witness:
  "(0, 1) \<in> set [(0::nat, 1::nat)] \<and>
   List.find (\<lambda>c. contains interval_lib (c_geometry c)
                     (peak_point_of (dem_transform example_dem) (0, 1)))
     (sort_key c_elevation example_contours)
     = Some \<lparr>c_elevation = 100, c_geometry = (- 30, 290)\<rparr> \<and>
   \<lparr>c_elevation = 200, c_geometry = (50, 150)\<rparr> \<in> set example_contours \<and>
   contains interval_lib (c_geometry \<lparr>c_elevation = 200, c_geometry = (50, 150)\<rparr>)
     (peak_point_of (dem_transform example_dem) (0, 1)) \<and>
   c_elevation \<lparr>c_elevation = 100, c_geometry = (- 30 :: real, 290 :: real)\<rparr>
     \<le> c_elevation \<lparr>c_elevation = 200, c_geometry = (50 :: real, 150 :: real)\<rparr> \<and>
   hill_footprints interval_lib 100 (dem_transform example_dem) [[100, 350, 100]]
     example_contours [(0, 1)] =
   [\<lparr>h_peak_elev = 350, h_base_elev = 100, h_relief = 250, h_geometry = (- 30, 290)\<rparr>]"
proof -
  have p: "(0, 1) \<in> set [(0::nat, 1::nat)]" by simp
  have low: "c_elevation \<lparr>c_elevation = 100, c_geometry = (- 30 :: real, 290 :: real)\<rparr>
     \<le> c_elevation \<lparr>c_elevation = 200, c_geometry = (50 :: real, 150 :: real)\<rparr>"
    using lowest_enclosing_contour [of example_contours interval_lib 100
            "dem_transform example_dem" "[[100, 350, 100]]" "[(0, 1)]"]
          p example_find example_higher_contour
    by blast
  show ?thesis
    using p example_find example_higher_contour low example_footprints by blast
qed

section \<open>Proximity clustering\<close>

text \<open>
  C7. In both NEW methods the geometry of a layer that is not empty is the proximity
  clustering of a union: in the relief method the union of the polygons of the relief mask
  (each passed through a zero-width buffer), in the contour method the union of the hill
  footprints. The clustering is the same operation in both: a buffer by half the proximity
  distance, the dissolve of that one geometry, and a buffer by minus the same amount.
  Nothing is applied after it.
\<close>

theorem proximity_clustering_after_union:
  "(window_size (params_get params ''relief_radius_m'' 2000) (dem_pixel_size_m dem) = Inr w \<and>
    polygons = polygonize_mask lib
                 (relief_mask (nat w) (params_get params ''relief_threshold_m'' 100)
                    (dem_elevation dem))
                 (dem_transform dem) \<and>
    count_true (relief_mask (nat w) (params_get params ''relief_threshold_m'' 100)
                  (dem_elevation dem)) \<noteq> 0 \<and>
    polygons \<noteq> []
    \<longrightarrow> compute_relief_method lib dem params =
          Inr (Layer ''NEW_2025_relief''
                 (cluster_by_proximity lib
                    (unary_union lib (map (\<lambda>g. buffer lib g 0) polygons))
                    (params_get params ''range_proximity_m'' 500)))) \<and>
   (np_any (isfinite (dem_elevation dem)) \<and>
    contour_levels (contour_filled (dem_elevation dem))
           (params_get params ''contour_interval_m'' 10) = Inr levels \<and>
    trace_levels lib (contour_filled (dem_elevation dem)) (dem_transform dem)
           (dem_pixel_size_m dem) levels = Inr closed_contours \<and>
    closed_contours \<noteq> [] \<and>
    peak_window (dem_pixel_size_m dem) = Inr pw \<and>
    hills = hill_footprints lib (params_get params ''relief_threshold_m'' 100)
              (dem_transform dem) (contour_filled (dem_elevation dem)) closed_contours
              (argwhere (peaks_mask (nat pw) (dem_elevation dem)
                           (contour_filled (dem_elevation dem)))) \<and>
    hills \<noteq> []
    \<longrightarrow> compute_contour_method lib dem params =
          Inr (Layer ''NEW_2025_contour''
                 (cluster_by_proximity lib
                    (unary_union lib (map h_geometry hills))
                    (params_get params ''range_proximity_m'' 500))))"
proof (intro conjI impI)
  assume "window_size (params_get params ''relief_radius_m'' 2000) (dem_pixel_size_m dem) = Inr w \<and>
    polygons = polygonize_mask lib
                 (relief_mask (nat w) (params_get params ''relief_threshold_m'' 100)
                    (dem_elevation dem))
                 (dem_transform dem) \<and>
    count_true (relief_mask (nat w) (params_get params ''relief_threshold_m'' 100)
                  (dem_elevation dem)) \<noteq> 0 \<and>
    polygons \<noteq> []"
  then show "compute_relief_method lib dem params =
          Inr (Layer ''NEW_2025_relief''
                 (cluster_by_proximity lib
                    (unary_union lib (map (\<lambda>g. buffer lib g 0) polygons))
                    (params_get params ''range_proximity_m'' 500)))"
    unfolding compute_relief_method_def Let_def cluster_by_proximity_def by clarsimp
next
  assume "np_any (isfinite (dem_elevation dem)) \<and>
    contour_levels (contour_filled (dem_elevation dem))
           (params_get params ''contour_interval_m'' 10) = Inr levels \<and>
    trace_levels lib (contour_filled (dem_elevation dem)) (dem_transform dem)
           (dem_pixel_size_m dem) levels = Inr closed_contours \<and>
    closed_contours \<noteq> [] \<and>
    peak_window (dem_pixel_size_m dem) = Inr pw \<and>
    hills = hill_footprints lib (params_get params ''relief_threshold_m'' 100)
              (dem_transform dem) (contour_filled (dem_elevation dem)) closed_contours
              (argwhere (peaks_mask (nat pw) (dem_elevation dem)
                           (contour_filled (dem_elevation dem)))) \<and>
    hills \<noteq> []"
  then show "compute_contour_method lib dem params =
          Inr (Layer ''NEW_2025_contour''
                 (cluster_by_proximity lib
                    (unary_union lib (map h_geometry hills))
                    (params_get params ''range_proximity_m'' 500)))"
    unfolding compute_contour_method_def Let_def cluster_by_proximity_def by clarsimp
qed

text \<open>The run of both methods on the example DEM, step by step.\<close>

lemma upt3: "[0..<3] = [0, 1, 2]"
  by (simp add: upt_rec)

lemma upt5: "[0..<5] = [0, 1, 2, 3, 4]"
  by (simp add: upt_rec)

lemma row_dims: "nrows [[a, b, c]] = 1" "ncols [[a, b, c]] = 3"
  by (simp_all add: nrows_def ncols_def)

lemma window_offsets_3: "window_offsets 3 = [- 1, 0, 1]"
  by (simp add: window_offsets_def upt3)

lemma window_offsets_5: "window_offsets 5 = [- 2, - 1, 0, 1, 2]"
  by (simp add: window_offsets_def upt5)

lemma reflect_index_one_row: "reflect_index (Suc 0) i = 0"
proof -
  have "i mod 2 = 0 \<or> i mod 2 = 1" by presburger
  then show ?thesis by (auto simp: reflect_index_def Let_def)
qed

lemma reflect_index_3:
  "reflect_index 3 (- 2) = 1" "reflect_index 3 (- 1) = 0" "reflect_index 3 0 = 0"
  "reflect_index 3 1 = 1" "reflect_index 3 2 = 2" "reflect_index 3 3 = 2"
  "reflect_index 3 4 = 1"
  by (simp_all add: reflect_index_def Let_def)

lemma tabulate2_one_row: "tabulate2 (Suc 0) 3 f = [[f 0 0, f 0 1, f 0 2]]"
  by (simp add: tabulate2_def upt3)

lemma example_minimum_filter: "minimum_filter 3 [[100, 350, 100]] = [[100, 100, 100]]"
  by (simp add: minimum_filter_def row_dims tabulate2_one_row window_values_def
        window_offsets_3 reflect_index_one_row reflect_index_3)

lemma example_window_values_5:
  "window_values 5 [[100, 350, 100::real]] 0 0 =
     [350, 100, 100, 350, 100, 350, 100, 100, 350, 100, 350, 100, 100, 350,
      100, 350, 100, 100, 350, 100, 350, 100, 100, 350, 100]"
  "window_values 5 [[100, 350, 100::real]] 0 (Suc 0) =
     [100, 100, 350, 100, 100, 100, 100, 350, 100, 100, 100, 100, 350, 100,
      100, 100, 100, 350, 100, 100, 100, 100, 350, 100, 100]"
  "window_values 5 [[100, 350, 100::real]] 0 2 =
     [100, 350, 100, 100, 350, 100, 350, 100, 100, 350, 100, 350, 100, 100,
      350, 100, 350, 100, 100, 350, 100, 350, 100, 100, 350]"
  by (simp_all add: window_values_def row_dims window_offsets_5 reflect_index_one_row
        reflect_index_3)

lemma example_maximum_filter: "maximum_filter 5 [[100, 350, 100]] = [[350, 350, 350]]"
  by (simp add: maximum_filter_def row_dims tabulate2_one_row example_window_values_5)

lemma example_peaks:
  "argwhere (peaks_mask 5 (dem_elevation example_dem) [[100, 350, 100]]) = [(0, 1)]"
  unfolding peaks_mask_def example_maximum_filter
  by (simp add: example_dem_def isfinite_def grid_map_def grid_map2_def argwhere_def
        nrows_def ncols_def upt3)

lemma example_window_size:
  "window_size (params_get example_params ''relief_radius_m'' 2000)
     (dem_pixel_size_m example_dem) = Inr 3"
  by (simp add: window_size_def params_get_def example_params_def example_dem_def
        py_int_def Let_def)

lemma example_relief_threshold: "params_get example_params ''relief_threshold_m'' 100 = 100"
  by (simp add: params_get_def example_params_def)

lemma example_relief_filled: "relief_filled (dem_elevation example_dem) = [[100, 350, 100]]"
  by (simp add: relief_filled_def example_dem_def grid_defs)

lemma example_relief_mask:
  "relief_mask 3 100 (dem_elevation example_dem) = [[False, True, False]]"
  unfolding relief_mask_def relief_grid_def Let_def example_relief_filled
    example_minimum_filter
  by (simp add: example_dem_def isfinite_def grid_map_def grid_map2_def)

lemma example_polygons:
  "polygonize_mask tracing_lib [[False, True, False]] (dem_transform example_dem)
     = [(100, 200)]"
  by (simp add: polygonize_mask_def tracing_lib_def interval_lib_def argwhere_def nrows_def
        ncols_def upt3 example_dem_def)

lemma example_trace:
  "trace_levels tracing_lib [[100, 350, 100]] (dem_transform example_dem) 100 [0, 250, 500]
     = Inr [\<lparr>c_elevation = 0, c_geometry = (- 50, 250)\<rparr>]"
  by (simp add: tracing_lib_def interval_lib_def path_contours_def allclose_pt_def Let_def)

lemma example_peak_window: "peak_window (dem_pixel_size_m example_dem) = Inr 5"
  by (simp add: peak_window_def example_dem_def py_int_def Let_def)

lemma example_hills:
  "hill_footprints tracing_lib 100 (dem_transform example_dem) [[100, 350, 100]]
     [\<lparr>c_elevation = 0, c_geometry = (- 50, 250)\<rparr>] [(0, 1)]
   = [\<lparr>h_peak_elev = 350, h_base_elev = 0, h_relief = 350, h_geometry = (- 50, 250)\<rparr>]"
  by (simp add: hill_footprints_def peak_point_of_def example_dem_def tracing_lib_def
        interval_lib_def)

theorem proximity_clustering_after_union_witness:
  "(window_size (params_get example_params ''relief_radius_m'' 2000)
      (dem_pixel_size_m example_dem) = Inr 3 \<and>
    [(100, 200)] = polygonize_mask tracing_lib
                 (relief_mask (nat 3) (params_get example_params ''relief_threshold_m'' 100)
                    (dem_elevation example_dem))
                 (dem_transform example_dem) \<and>
    count_true (relief_mask (nat 3) (params_get example_params ''relief_threshold_m'' 100)
                  (dem_elevation example_dem)) \<noteq> 0 \<and>
    [(100 :: real, 200 :: real)] \<noteq> []) \<and>
   compute_relief_method tracing_lib example_dem example_params =
          Inr (Layer ''NEW_2025_relief''
                 (cluster_by_proximity tracing_lib
                    (unary_union tracing_lib (map (\<lambda>g. buffer tracing_lib g 0) [(100, 200)]))
                    (params_get example_params ''range_proximity_m'' 500))) \<and>
   (np_any (isfinite (dem_elevation example_dem)) \<and>
    contour_levels (contour_filled (dem_elevation example_dem))
           (params_get example_params ''contour_interval_m'' 10) = Inr [0, 250, 500] \<and>
    trace_levels tracing_lib (contour_filled (dem_elevation example_dem))
           (dem_transform example_dem) (dem_pixel_size_m example_dem) [0, 250, 500]
      = Inr [\<lparr>c_elevation = 0, c_geometry = (- 50, 250)\<rparr>] \<and>
    [\<lparr>c_elevation = 0, c_geometry = (- 50 :: real, 250 :: real)\<rparr>] \<noteq> [] \<and>
    peak_window (dem_pixel_size_m example_dem) = Inr 5 \<and>
    [\<lparr>h_peak_elev = 350, h_base_elev = 0, h_relief = 350, h_geometry = (- 50, 250)\<rparr>]
      = hill_footprints tracing_lib (params_get example_params ''relief_threshold_m'' 100)
              (dem_transform example_dem) (contour_filled (dem_elevation example_dem))
              [\<lparr>c_elevation = 0, c_geometry = (- 50, 250)\<rparr>]
              (argwhere (peaks_mask (nat 5) (dem_elevation example_dem)
                           (contour_filled (dem_elevation example_dem)))) \<and>
    [\<lparr>h_peak_elev = 350, h_base_elev = 0, h_relief = 350,
       h_geometry = (- 50 :: real, 250 :: real)\<rparr>] \<noteq> []) \<and>
   compute_contour_method tracing_lib example_dem example_params =
          Inr (Layer ''NEW_2025_contour''
                 (cluster_by_proximity tracing_lib
                    (unary_union tracing_lib
                       (map h_geometry
                          [\<lparr>h_peak_elev = 350, h_base_elev = 0, h_relief = 350,
                             h_geometry = (- 50, 250)\<rparr>]))
                    (params_get example_params ''range_proximity_m'' 500)))"
  (is "?H1 \<and> ?C1 \<and> ?H2 \<and> ?C2")
proof -
  have n3: "nat 3 = 3" and n5: "nat 5 = 5" by simp_all
  have px: "dem_pixel_size_m example_dem = 100" by (simp add: example_dem_def)
  have mask: "relief_mask (nat 3) (params_get example_params ''relief_threshold_m'' 100)
                (dem_elevation example_dem) = [[False, True, False]]"
    by (simp only: n3 example_relief_threshold example_relief_mask)
  have h1: ?H1
    by (simp only: mask example_window_size example_polygons)
       (simp add: count_true_def)
  have h2: ?H2
    by (simp only: example_any_finite example_levels example_contour_filled px
          example_contour_interval example_contour_levels
          example_trace [unfolded px] example_peak_window [unfolded px] n5 example_peaks
          example_relief_threshold example_hills)
       simp
  from proximity_clustering_after_union
         [where lib = tracing_lib and dem = example_dem and params = example_params
            and w = 3 and polygons = "[(100, 200)]" and levels = "[0, 250, 500]"
            and closed_contours = "[\<lparr>c_elevation = 0, c_geometry = (- 50, 250)\<rparr>]"
            and pw = 5
            and hills = "[\<lparr>h_peak_elev = 350, h_base_elev = 0, h_relief = 350,
                            h_geometry = (- 50, 250)\<rparr>]"]
  have "(?H1 \<longrightarrow> ?C1) \<and> (?H2 \<longrightarrow> ?C2)" .
  with h1 h2 show ?thesis by blast
qed

section \<open>Order and iteration counts of the OLD raster pipeline\<close>

text \<open>
  C5. Whenever the OLD method reaches its morphological stages (the three parameters are
  present, the slope was computed, the classified mask is not empty after the urban
  exclusion, both iteration counts were computed), the final raster mask is obtained in
  this order: the slope grid is thresholded (strictly above the threshold, on finite
  cells), the urban pixels are removed when an urban mask with at least one pixel is
  given, the result is closed with the 4-connected structure when the gap count is
  positive, and the closed mask is dilated with the same structure when the buffer count
  is positive. The closing is applied to the classified mask and the dilation to the
  closed mask.
\<close>

theorem old_pipeline_order:
  assumes "params_item params ''slope_threshold_deg'' = Inr slope_threshold"
    and "params_item params ''foothill_buffer_m'' = Inr foothill_buffer"
    and "params_item params ''gap_bridge_m'' = Inr gap_bridge"
    and "compute_slope_degrees slope_of (dem_elevation dem) (dem_pixel_size_m dem)
           = Inr slope_deg"
    and "count_true (exclude_urban
           (threshold_slope slope_deg slope_threshold (dem_elevation dem)) urban_mask) \<noteq> 0"
    and "buffer_pixels fdiv foothill_buffer (dem_pixel_size_m dem) = Inr k"
    and "gap_pixels fdiv gap_bridge (dem_pixel_size_m dem) = Inr n"
  shows "old_final_mask fdiv slope_of urban_mask dem params =
           Inr (Some
             (let thresholded =
                    grid_map2 (\<lambda>p q. p \<and> q)
                      (grid_map (\<lambda>s. case s of None \<Rightarrow> False
                                       | Some v \<Rightarrow> slope_threshold < v) slope_deg)
                      (isfinite (dem_elevation dem));
                  excluded =
                    (case urban_mask of
                       None \<Rightarrow> thresholded
                     | Some urban \<Rightarrow>
                         if 0 < count_true urban
                         then grid_map2 (\<lambda>p q. p \<and> \<not> q) thresholded urban
                         else thresholded);
                  closed =
                    (if 0 < n
                     then binary_closing excluded generate_binary_structure_2_1 (nat n)
                     else excluded)
              in if 0 < k
                 then binary_dilation closed generate_binary_structure_2_1 (nat k)
                 else closed))"
  using assms unfolding old_final_mask_def Let_def
  by (simp add: bridge_gaps_def foothill_dilate_def exclude_urban_def threshold_slope_def)


text \<open>
  The OLD method on the three-by-three example, with one urban pixel in the corner: the
  classified mask loses the corner, the closing leaves the centre (cells outside the array
  count as false), the dilation grows it to the cross. Dilating first and closing
  afterwards would leave the centre alone.
\<close>

lemma old_example_items:
  "params_item old_example_params ''slope_threshold_deg'' = Inr 3"
  "params_item old_example_params ''foothill_buffer_m'' = Inr 30"
  "params_item old_example_params ''gap_bridge_m'' = Inr 60"
  by (simp_all add: params_item_def old_example_params_def)

lemma old_example_slope:
  "compute_slope_degrees five_degrees (dem_elevation old_example_dem)
     (dem_pixel_size_m old_example_dem)
   = Inr [[Some 5, Some 5, Some 5], [Some 5, Some 5, Some 5], [Some 5, Some 5, Some 5]]"
  by (simp add: compute_slope_degrees_def old_example_dem_def five_degrees_def grid_defs
        Let_def)

lemma old_example_thresholded:
  "grid_map2 (\<lambda>p q. p \<and> q)
     (grid_map (\<lambda>s. case s of None \<Rightarrow> False | Some v \<Rightarrow> 3 < v)
        [[Some 5, Some 5, Some 5], [Some 5, Some 5, Some 5], [Some 5, Some (5::real), Some 5]])
     (isfinite (dem_elevation old_example_dem))
   = [[True, True, True], [True, True, True], [True, True, True]]"
  by (simp add: old_example_dem_def grid_defs)

lemma old_example_urban_count:
  "0 < count_true [[True, False, False], [False, False, False], [False, False, False]]"
  by (simp add: count_true_def)

lemma old_example_excluded:
  "grid_map2 (\<lambda>p q. p \<and> \<not> q) [[True, True, True], [True, True, True], [True, True, True]]
     [[True, False, False], [False, False, False], [False, False, False]]
   = [[False, True, True], [True, True, True], [True, True, True]]"
  by (simp add: grid_defs)

lemma old_example_classified:
  "exclude_urban
     (threshold_slope
        [[Some 5, Some 5, Some 5], [Some 5, Some 5, Some 5], [Some 5, Some 5, Some 5]] 3
        (dem_elevation old_example_dem))
     (Some [[True, False, False], [False, False, False], [False, False, False]])
   = [[False, True, True], [True, True, True], [True, True, True]]"
  unfolding threshold_slope_def old_example_thresholded exclude_urban_def
  by (simp add: old_example_urban_count old_example_excluded)

lemma old_example_count:
  "count_true (exclude_urban
     (threshold_slope
        [[Some 5, Some 5, Some 5], [Some 5, Some 5, Some 5], [Some 5, Some 5, Some 5]] 3
        (dem_elevation old_example_dem))
     (Some [[True, False, False], [False, False, False], [False, False, False]])) \<noteq> 0"
  unfolding old_example_classified by (simp add: count_true_def)

lemma old_example_counts:
  "buffer_pixels exact_div 30 (dem_pixel_size_m old_example_dem) = Inr 1"
  "gap_pixels exact_div 60 (dem_pixel_size_m old_example_dem) = Inr 1"
  by (simp_all add: buffer_pixels_def gap_pixels_def int_ceil_def exact_div_def
        old_example_dem_def)


lemma close_then_dilate:
  "binary_dilation
     (binary_closing [[False, True, True], [True, True, True], [True, True, True]]
        generate_binary_structure_2_1 1)
     generate_binary_structure_2_1 1
   = [[False, True, False], [True, True, True], [False, True, False]]"
  by code_simp

lemma dilate_then_close:
  "binary_closing
     (binary_dilation [[False, True, True], [True, True, True], [True, True, True]]
        generate_binary_structure_2_1 1)
     generate_binary_structure_2_1 1
   = [[False, False, False], [False, True, False], [False, False, False]]"
  by code_simp

theorem old_pipeline_order_witness:
  "params_item old_example_params ''slope_threshold_deg'' = Inr 3 \<and>
   params_item old_example_params ''foothill_buffer_m'' = Inr 30 \<and>
   params_item old_example_params ''gap_bridge_m'' = Inr 60 \<and>
   compute_slope_degrees five_degrees (dem_elevation old_example_dem)
     (dem_pixel_size_m old_example_dem)
     = Inr [[Some 5, Some 5, Some 5], [Some 5, Some 5, Some 5], [Some 5, Some 5, Some 5]] \<and>
   count_true (exclude_urban
     (threshold_slope
        [[Some 5, Some 5, Some 5], [Some 5, Some 5, Some 5], [Some 5, Some 5, Some 5]] 3
        (dem_elevation old_example_dem))
     (Some [[True, False, False], [False, False, False], [False, False, False]])) \<noteq> 0 \<and>
   buffer_pixels exact_div 30 (dem_pixel_size_m old_example_dem) = Inr 1 \<and>
   gap_pixels exact_div 60 (dem_pixel_size_m old_example_dem) = Inr 1 \<and>
   old_final_mask exact_div five_degrees
     (Some [[True, False, False], [False, False, False], [False, False, False]])
     old_example_dem old_example_params
     = Inr (Some [[False, True, False], [True, True, True], [False, True, False]])"
proof -
  have n1: "nat 1 = 1" by simp
  from old_pipeline_order [OF old_example_items old_example_slope old_example_count
         old_example_counts]
  have "old_final_mask exact_div five_degrees
     (Some [[True, False, False], [False, False, False], [False, False, False]])
     old_example_dem old_example_params
     = Inr (Some [[False, True, False], [True, True, True], [False, True, False]])"
    unfolding Let_def old_example_thresholded
    by (simp only: option.case old_example_urban_count if_True old_example_excluded n1
          close_then_dilate zero_less_one)
  then show ?thesis
    using old_example_items old_example_slope old_example_count old_example_counts by blast
qed


section \<open>A DEM without finite cells\<close>













section \<open>Nearest neighbour of every part\<close>

lemma scan_inv_step:
  assumes "scan_inv lib geoms i S acc"
  shows "scan_inv lib geoms i (insert j S)
           (if i = j then acc
            else if (case fst acc of None \<Rightarrow> True
                     | Some min_dist \<Rightarrow> distance lib (geoms ! i) (geoms ! j) < min_dist)
                 then (Some (distance lib (geoms ! i) (geoms ! j)), int j)
                 else acc)"
proof (cases "i = j")
  case True
  then show ?thesis using assms by (auto simp: scan_inv_def split: option.splits)
next
  case False
  show ?thesis
  proof (cases "fst acc")
    case None
    then show ?thesis using assms False by (auto simp: scan_inv_def)
  next
    case (Some m)
    show ?thesis
    proof (cases "distance lib (geoms ! i) (geoms ! j) < m")
      case True
      then show ?thesis using assms False Some
        by (fastforce simp: scan_inv_def)
    next
      case nless: False
      then have "m \<le> distance lib (geoms ! i) (geoms ! j)" by simp
      then show ?thesis using assms False Some nless
        by (auto simp: scan_inv_def)
    qed
  qed
qed

lemma scan_candidates_inv:
  assumes "scan_inv lib geoms i S acc"
  shows "scan_inv lib geoms i (S \<union> set js) (scan_candidates lib geoms i js acc)"
  using assms
proof (induction js arbitrary: acc S)
  case Nil
  then show ?case by simp
next
  case (Cons j js)
  let ?acc' = "if i = j then acc
            else if (case fst acc of None \<Rightarrow> True
                     | Some min_dist \<Rightarrow> distance lib (geoms ! i) (geoms ! j) < min_dist)
                 then (Some (distance lib (geoms ! i) (geoms ! j)), int j)
                 else acc"
  have step: "scan_inv lib geoms i (insert j S) ?acc'"
    using Cons.prems by (rule scan_inv_step)
  have eq: "scan_candidates lib geoms i (j # js) acc = scan_candidates lib geoms i js ?acc'"
    by (simp add: Let_def)
  have "scan_inv lib geoms i (insert j S \<union> set js) (scan_candidates lib geoms i js ?acc')"
    using step by (rule Cons.IH)
  then show ?case unfolding eq by simp
qed

lemma scan_inv_start: "scan_inv lib geoms i {} (None, - 1)"
  by (simp add: scan_inv_def)

lemma nearest_row_cases:
  assumes sound: "\<forall>j \<in> set (tree_query lib geoms (buffer lib (geoms ! i) R)). j < length geoms"
    and complete: "\<forall>j < length geoms. distance lib (geoms ! i) (geoms ! j) < R \<longrightarrow>
                     j \<in> set (tree_query lib geoms (buffer lib (geoms ! i) R))"
  shows "(nearest_row lib round1 geoms R i = [] \<and>
          (\<forall>k < length geoms. k \<noteq> i \<longrightarrow> R \<le> distance lib (geoms ! i) (geoms ! k))) \<or>
         (\<exists>j < length geoms. j \<noteq> i \<and>
            distance lib (geoms ! i) (geoms ! j) < R \<and>
            (\<forall>k < length geoms. k \<noteq> i \<longrightarrow>
               distance lib (geoms ! i) (geoms ! j) \<le> distance lib (geoms ! i) (geoms ! k)) \<and>
            nearest_row lib round1 geoms R i =
              [\<lparr>hill_id = i, nearest_id = int j,
                distance_m = round1 (distance lib (geoms ! i) (geoms ! j))\<rparr>])"
proof -
  let ?cs = "tree_query lib geoms (buffer lib (geoms ! i) R)"
  let ?d = "\<lambda>k. distance lib (geoms ! i) (geoms ! k)"
  let ?found = "scan_candidates lib geoms i ?cs (None, - 1)"
  have inv: "scan_inv lib geoms i (set ?cs) ?found"
    using scan_candidates_inv [OF scan_inv_start, of lib geoms i ?cs] by simp
  show ?thesis
  proof (cases "fst ?found")
    case None
    then have all: "\<forall>k \<in> set ?cs. k = i" using inv by (simp add: scan_inv_def)
    have row: "nearest_row lib round1 geoms R i = []"
      using None by (simp add: nearest_row_def Let_def)
    have "R \<le> ?d k" if "k < length geoms" "k \<noteq> i" for k
    proof (rule ccontr)
      assume "\<not> R \<le> ?d k"
      then have "k \<in> set ?cs" using complete that(1) by simp
      then show False using all that(2) by blast
    qed
    then show ?thesis using row by blast
  next
    case (Some m)
    then obtain j where j: "j \<in> set ?cs" "j \<noteq> i" "snd ?found = int j" "m = ?d j"
      and least: "\<forall>k \<in> set ?cs. k \<noteq> i \<longrightarrow> m \<le> ?d k"
      using inv by (auto simp: scan_inv_def)
    have jlen: "j < length geoms" using sound j(1) by blast
    show ?thesis
    proof (cases "m < R")
      case True
      have row: "nearest_row lib round1 geoms R i =
              [\<lparr>hill_id = i, nearest_id = int j, distance_m = round1 (?d j)\<rparr>]"
        using Some True j(3,4) by (simp add: nearest_row_def Let_def)
      have "?d j \<le> ?d k" if "k < length geoms" "k \<noteq> i" for k
      proof (cases "?d k < R")
        case True
        then have "k \<in> set ?cs" using complete that(1) by simp
        then show ?thesis using least that(2) j(4) by simp
      next
        case False
        then show ?thesis using \<open>m < R\<close> j(4) by simp
      qed
      then show ?thesis using row jlen j(2,4) True by blast
    next
      case False
      have row: "nearest_row lib round1 geoms R i = []"
        using Some False by (simp add: nearest_row_def Let_def)
      have "R \<le> ?d k" if "k < length geoms" "k \<noteq> i" for k
      proof (rule ccontr)
        assume n: "\<not> R \<le> ?d k"
        then have "k \<in> set ?cs" using complete that(1) by simp
        then have "m \<le> ?d k" using least that(2) by simp
        then show False using n False by simp
      qed
      then show ?thesis using row by blast
    qed
  qed
qed

text \<open>
  C8. The parts are the exploded single parts of the input. Provided that the spatial
  index answers the query of a part buffered by the search radius with valid part numbers
  and with every part closer to it than the radius, the table is the concatenation, part
  by part, of at most one row each: a part with another part closer than the radius has
  exactly one row, with its own number, the number of another part at the least exact
  distance among all other parts, and that distance rounded; a part whose other parts are
  all at the radius or farther has no row. With no row at all, or with fewer than two
  parts, there is no table.
\<close>

theorem nearest_neighbour_rows:
  assumes "geoms = exploded lib hills_gdf"
    and "\<forall>i < length geoms.
           \<forall>j \<in> set (tree_query lib geoms (buffer lib (geoms ! i) R)). j < length geoms"
    and "\<forall>i < length geoms. \<forall>j < length geoms.
           distance lib (geoms ! i) (geoms ! j) < R \<longrightarrow>
             j \<in> set (tree_query lib geoms (buffer lib (geoms ! i) R))"
  shows "(\<forall>parts. explode lib hills_gdf = Some parts \<longrightarrow> geoms = parts) \<and>
         compute_hill_distances lib round1 hills_gdf R =
           (if hills_gdf = [] \<or> length geoms < 2 \<or>
               concat (map (nearest_row lib round1 geoms R) [0..<length geoms]) = []
            then None
            else Some (concat (map (nearest_row lib round1 geoms R) [0..<length geoms]))) \<and>
         (\<forall>i < length geoms.
            (nearest_row lib round1 geoms R i = [] \<and>
             (\<forall>k < length geoms. k \<noteq> i \<longrightarrow>
                R \<le> distance lib (geoms ! i) (geoms ! k))) \<or>
            (\<exists>j < length geoms. j \<noteq> i \<and>
               distance lib (geoms ! i) (geoms ! j) < R \<and>
               (\<forall>k < length geoms. k \<noteq> i \<longrightarrow>
                  distance lib (geoms ! i) (geoms ! j)
                    \<le> distance lib (geoms ! i) (geoms ! k)) \<and>
               nearest_row lib round1 geoms R i =
                 [\<lparr>hill_id = i, nearest_id = int j,
                   distance_m = round1 (distance lib (geoms ! i) (geoms ! j))\<rparr>]))"
proof (intro conjI allI impI)
  fix parts assume "explode lib hills_gdf = Some parts"
  then show "geoms = parts" using assms(1) by (simp add: exploded_def)
next
  show "compute_hill_distances lib round1 hills_gdf R =
           (if hills_gdf = [] \<or> length geoms < 2 \<or>
               concat (map (nearest_row lib round1 geoms R) [0..<length geoms]) = []
            then None
            else Some (concat (map (nearest_row lib round1 geoms R) [0..<length geoms])))"
    unfolding compute_hill_distances_def Let_def assms(1) by simp
next
  fix i assume i: "i < length geoms"
  have s: "\<forall>j \<in> set (tree_query lib geoms (buffer lib (geoms ! i) R)). j < length geoms"
    using assms(2) i by blast
  have c: "\<forall>j < length geoms. distance lib (geoms ! i) (geoms ! j) < R \<longrightarrow>
             j \<in> set (tree_query lib geoms (buffer lib (geoms ! i) R))"
    using assms(3) i by blast
  show "(nearest_row lib round1 geoms R i = [] \<and>
             (\<forall>k < length geoms. k \<noteq> i \<longrightarrow>
                R \<le> distance lib (geoms ! i) (geoms ! k))) \<or>
            (\<exists>j < length geoms. j \<noteq> i \<and>
               distance lib (geoms ! i) (geoms ! j) < R \<and>
               (\<forall>k < length geoms. k \<noteq> i \<longrightarrow>
                  distance lib (geoms ! i) (geoms ! j)
                    \<le> distance lib (geoms ! i) (geoms ! k)) \<and>
               nearest_row lib round1 geoms R i =
                 [\<lparr>hill_id = i, nearest_id = int j,
                   distance_m = round1 (distance lib (geoms ! i) (geoms ! j))\<rparr>])"
    by (rule nearest_row_cases [OF s c])
qed

text \<open>
  The interval library answers a query with valid part numbers and leaves out no part
  closer than the radius.
\<close>

lemma interval_query_sound:
  "\<forall>j \<in> set (tree_query interval_lib gs q). j < length gs"
  by (simp add: interval_lib_def)

lemma interval_query_complete:
  assumes "j < length gs" and "distance interval_lib g (gs ! j) < R"
  shows "j \<in> set (tree_query interval_lib gs (buffer interval_lib g R))"
proof -
  have d: "max 0 (max (fst (gs ! j) - snd g) (fst g - snd (gs ! j))) < R"
    using assms(2) by (simp add: interval_lib_def)
  then have "fst (gs ! j) - snd g < R" and "fst g - snd (gs ! j) < R" by simp_all
  then have "fst (gs ! j) \<le> max (fst g) (snd g) + R"
    and "min (fst g) (snd g) - R \<le> snd (gs ! j)"
    by (simp_all add: max_def min_def)
  then show ?thesis using assms(1) by (simp add: interval_lib_def)
qed

lemma line_exploded:
  "explode interval_lib hills_on_a_line = Some hills_on_a_line"
  "hills_on_a_line = exploded interval_lib hills_on_a_line"
  by (simp_all add: exploded_def interval_lib_def)

lemma line_rows:
  "nearest_row interval_lib decimal_round1 hills_on_a_line 200 0
     = [\<lparr>hill_id = 0, nearest_id = 1, distance_m = 100\<rparr>]"
  "nearest_row interval_lib decimal_round1 hills_on_a_line 200 1
     = [\<lparr>hill_id = 1, nearest_id = 0, distance_m = 100\<rparr>]"
  "nearest_row interval_lib decimal_round1 hills_on_a_line 200 2 = []"
  by (simp_all add: nearest_row_def interval_lib_def hills_on_a_line_def Let_def
        decimal_round1_def round_half_even_def)

lemma line_length: "length hills_on_a_line = 3" "[0..<3] = [0, 1, 2]"
  by (simp_all add: hills_on_a_line_def upt_rec)

theorem nearest_neighbour_rows_witness:
  "explode interval_lib hills_on_a_line = Some hills_on_a_line \<and>
   hills_on_a_line = exploded interval_lib hills_on_a_line \<and>
   nearest_row interval_lib decimal_round1 hills_on_a_line 200 1
     = [\<lparr>hill_id = 1, nearest_id = 0, distance_m = 100\<rparr>] \<and>
   nearest_row interval_lib decimal_round1 hills_on_a_line 200 2 = [] \<and>
   compute_hill_distances interval_lib decimal_round1 hills_on_a_line 200
     = Some [\<lparr>hill_id = 0, nearest_id = 1, distance_m = 100\<rparr>,
             \<lparr>hill_id = 1, nearest_id = 0, distance_m = 100\<rparr>]"
proof -
  have sound: "\<forall>i < length hills_on_a_line.
           \<forall>j \<in> set (tree_query interval_lib hills_on_a_line
                        (buffer interval_lib (hills_on_a_line ! i) 200)).
             j < length hills_on_a_line"
    using interval_query_sound by blast
  have complete: "\<forall>i < length hills_on_a_line. \<forall>j < length hills_on_a_line.
           distance interval_lib (hills_on_a_line ! i) (hills_on_a_line ! j) < 200 \<longrightarrow>
             j \<in> set (tree_query interval_lib hills_on_a_line
                         (buffer interval_lib (hills_on_a_line ! i) 200))"
    using interval_query_complete by blast
  have ne: "hills_on_a_line \<noteq> []" "\<not> length hills_on_a_line < 2"
    by (simp_all add: hills_on_a_line_def)
  have cc: "concat (map (nearest_row interval_lib decimal_round1 hills_on_a_line 200)
                      [0..<length hills_on_a_line])
            = [\<lparr>hill_id = 0, nearest_id = 1, distance_m = 100\<rparr>,
               \<lparr>hill_id = 1, nearest_id = 0, distance_m = 100\<rparr>]"
    by (simp only: line_length list.map concat.simps append.simps line_rows)
  from nearest_neighbour_rows [OF line_exploded(2) sound complete, of decimal_round1]
  have "compute_hill_distances interval_lib decimal_round1 hills_on_a_line 200 =
           (if hills_on_a_line = [] \<or> length hills_on_a_line < 2 \<or>
               concat (map (nearest_row interval_lib decimal_round1 hills_on_a_line 200)
                         [0..<length hills_on_a_line]) = []
            then None
            else Some (concat (map (nearest_row interval_lib decimal_round1
                                      hills_on_a_line 200)
                                 [0..<length hills_on_a_line])))"
    by blast
  then have "compute_hill_distances interval_lib decimal_round1 hills_on_a_line 200
     = Some [\<lparr>hill_id = 0, nearest_id = 1, distance_m = 100\<rparr>,
             \<lparr>hill_id = 1, nearest_id = 0, distance_m = 100\<rparr>]"
    unfolding cc using ne by simp
  then show ?thesis using line_exploded line_rows by blast
qed

end
